theory Spec2Isabelle
  imports Main "HOL-Library.Word" "HOL-Library.Sublist"
begin

section \<open>Values shared by the command-line code\<close>

type_synonym byte = "8 word"

text \<open>
  Go's \<open>error\<close> values met in \<open>transactions.go\<close>: the two errors of \<open>encoding/hex\<close>
  and the errors built by \<open>fmt.Errorf\<close> / \<open>errors.New\<close>, which carry their formatted
  message. Errors produced by code outside the package are values of the same type.
\<close>

datatype error = ErrLength | InvalidByteError char | Errorf string

subsection \<open>Formatting\<close>

text \<open>The verb \<open>%d\<close> of \<open>fmt\<close> on a non-negative integer: its decimal digits.\<close>

definition digit_char :: "nat \<Rightarrow> char" where
  "digit_char n = ''0123456789'' ! n"

function fmt_nat :: "nat \<Rightarrow> string" where
  "fmt_nat n = (if n < 10 then [digit_char n] else fmt_nat (n div 10) @ [digit_char (n mod 10)])"
  by pat_completeness auto
termination
  by (relation "measure id") auto

declare fmt_nat.simps [simp del]

definition fmt_d :: "int \<Rightarrow> string" where
  "fmt_d i = (if i < 0 then CHR ''-'' # fmt_nat (nat (- i)) else fmt_nat (nat i))"

text \<open>
  The verb \<open>%#U\<close> on a byte read as a rune, as \<open>InvalidByteError.Error\<close> prints it:
  \<open>U+00XX\<close> in upper-case hexadecimal, followed by the quoted character (in UTF-8) when
  \<open>strconv.IsPrint\<close> accepts it.
\<close>

definition upper_hex_char :: "nat \<Rightarrow> char" where
  "upper_hex_char n = ''0123456789ABCDEF'' ! n"

definition IsPrint_latin1 :: "nat \<Rightarrow> bool" where
  "IsPrint_latin1 r = ((32 \<le> r \<and> r \<le> 126) \<or> (161 \<le> r \<and> r \<le> 255 \<and> r \<noteq> 173))"

definition utf8_latin1 :: "char \<Rightarrow> string" where
  "utf8_latin1 c = (let r = (of_char c :: nat) in
     if r < 128 then [c] else [char_of (192 + r div 64), char_of (128 + r mod 64)])"

definition fmt_sharp_U :: "char \<Rightarrow> string" where
  "fmt_sharp_U c = (let r = (of_char c :: nat) in
     ''U+00'' @ [upper_hex_char (r div 16), upper_hex_char (r mod 16)] @
     (if IsPrint_latin1 r then [CHR '' '', CHR 0x27] @ utf8_latin1 c @ [CHR 0x27] else []))"

text \<open>The method \<open>Error()\<close>: the message of an error.\<close>

fun Error :: "error \<Rightarrow> string" where
  "Error ErrLength = ''encoding/hex: odd length hex string''"
| "Error (InvalidByteError c) = ''encoding/hex: invalid byte: '' @ fmt_sharp_U c"
| "Error (Errorf m) = m"

subsection \<open>\<open>encoding/hex\<close>\<close>

text \<open>
  \<open>hex.DecodeString\<close> of the Go standard library: pairs of hexadecimal digits (either
  case) give one byte each; the first character that is no digit is reported; a string of
  odd length whose characters are all digits is \<open>ErrLength\<close>.
\<close>

definition fromHexChar :: "char \<Rightarrow> nat option" where
  "fromHexChar c = (let n = (of_char c :: nat) in
     if 48 \<le> n \<and> n \<le> 57 then Some (n - 48)
     else if 97 \<le> n \<and> n \<le> 102 then Some (n - 87)
     else if 65 \<le> n \<and> n \<le> 70 then Some (n - 55)
     else None)"

fun hex_Decode :: "string \<Rightarrow> byte list \<Rightarrow> error + byte list" where
  "hex_Decode (p # q # rest) dst =
     (case fromHexChar p of
        None \<Rightarrow> Inl (InvalidByteError p)
      | Some a \<Rightarrow>
          (case fromHexChar q of
             None \<Rightarrow> Inl (InvalidByteError q)
           | Some b \<Rightarrow> hex_Decode rest (dst @ [of_nat (a * 16 + b)])))"
| "hex_Decode [p] dst =
     (case fromHexChar p of None \<Rightarrow> Inl (InvalidByteError p) | Some a \<Rightarrow> Inl ErrLength)"
| "hex_Decode [] dst = Inr dst"

definition hex_DecodeString :: "string \<Rightarrow> error + byte list" where
  "hex_DecodeString s = hex_Decode s []"

text \<open>\<open>hex.EncodeToString\<close>: two lower-case digits for each byte.\<close>

definition hextable :: string where
  "hextable = ''0123456789abcdef''"

definition hex_EncodeToString :: "byte list \<Rightarrow> string" where
  "hex_EncodeToString bs =
     concat (map (\<lambda>b. [hextable ! (unat b div 16), hextable ! (unat b mod 16)]) bs)"

subsection \<open>The command-line context\<close>

text \<open>
  \<open>cli.Context\<close> as the code reads it: each accessor maps a flag name to the value of
  that flag, and \<open>Args\<close> are the positional arguments. \<open>Int64\<close> flags are 64-bit two's
  complement, \<open>Uint64\<close> flags are unsigned 64-bit.
\<close>

record Context =
  String :: "string \<Rightarrow> string"
  StringSlice :: "string \<Rightarrow> string list"
  Int64 :: "string \<Rightarrow> 64 word"
  Uint64 :: "string \<Rightarrow> 64 word"
  Args :: "string list"

definition stakingTransactionFlag :: string where "stakingTransactionFlag = ''staking-transaction''"
definition magicBytesFlag :: string where "magicBytesFlag = ''magic-bytes''"
definition covenantMembersPksFlag :: string where "covenantMembersPksFlag = ''covenant-committee-pks''"
definition covenantQuorumFlag :: string where "covenantQuorumFlag = ''covenant-quorum''"
definition networkNameFlag :: string where "networkNameFlag = ''network''"
definition stakerPublicKeyFlag :: string where "stakerPublicKeyFlag = ''staker-pk''"
definition finalityProviderKeyFlag :: string where "finalityProviderKeyFlag = ''finality-provider-pk''"

text \<open>
  Modelled from the spec: the flag names \<open>helpers.StakingAmountFlag\<close> and
  \<open>helpers.StakingTimeBlocksFlag\<close> (package \<open>helpers\<close> is not among the sources); the
  spec lists the flags \<open>staking-amount\<close> and \<open>staking-time-blocks\<close>.
\<close>

definition StakingAmountFlag :: string where "StakingAmountFlag = ''staking-amount''"
definition StakingTimeBlocksFlag :: string where "StakingTimeBlocksFlag = ''staking-time-blocks''"

text \<open>
  Modelled from the spec: the constant \<open>btcstaking.MagicBytesLen\<close> (declared outside the
  sources); the spec gives magic bytes as 4 fixed bytes.
\<close>

definition MagicBytesLen :: nat where "MagicBytesLen = 4"

definition MaxUint16 :: int where "MaxUint16 = 65535"

section \<open>Parsers and validators of \<open>transactions.go\<close>\<close>

definition parseMagicBytesFromHex :: "string \<Rightarrow> error + byte list" where
  "parseMagicBytesFromHex magicBytesHex =
     (case hex_DecodeString magicBytesHex of
        Inl err \<Rightarrow> Inl err
      | Inr magicBytes \<Rightarrow>
          if length magicBytes \<noteq> MagicBytesLen
          then Inl (Errorf (''magic bytes should be of length '' @ fmt_d (int MagicBytesLen)))
          else Inr magicBytes)"

definition parseMagicBytesFromCliCtx :: "Context \<Rightarrow> error + byte list" where
  "parseMagicBytesFromCliCtx ctx = parseMagicBytesFromHex (String ctx magicBytesFlag)"

definition parseStakingAmountFromCliCtx :: "Context \<Rightarrow> error + 64 word" where
  "parseStakingAmountFromCliCtx ctx =
     (let amt = Int64 ctx StakingAmountFlag in
      if sint amt \<le> 0 then Inl (Errorf ''staking amount should be greater than 0'')
      else Inr amt)"

definition parseStakingTimeBlocksFromCliCtx :: "Context \<Rightarrow> error + 16 word" where
  "parseStakingTimeBlocksFromCliCtx ctx =
     (let timeBlocks = Int64 ctx StakingTimeBlocksFlag in
      if sint timeBlocks \<le> 0
      then Inl (Errorf ''staking time blocks should be greater than 0'')
      else if sint timeBlocks > MaxUint16
      then Inl (Errorf (''staking time blocks should be less or equal to '' @ fmt_d MaxUint16))
      else Inr (ucast timeBlocks))"


subsection \<open>Code outside the package\<close>

text \<open>
  Modelled from the spec: \<open>utils.GetBtcNetworkParams\<close> (package \<open>utils\<close> is not among
  the sources). The spec has the network name resolve to one of mainnet, testnet3,
  regtest, simnet, signet, else an "unknown network" error naming the input.
\<close>

datatype Params = MainNetParams | TestNet3Params | RegressionNetParams | SimNetParams | SigNetParams

definition GetBtcNetworkParams :: "string \<Rightarrow> error + Params" where
  "GetBtcNetworkParams network =
     (if network = ''testnet3'' then Inr TestNet3Params
      else if network = ''mainnet'' then Inr MainNetParams
      else if network = ''regtest'' then Inr RegressionNetParams
      else if network = ''simnet'' then Inr SimNetParams
      else if network = ''signet'' then Inr SigNetParams
      else Inl (Errorf (''unknown network '' @ network)))"

text \<open>
  The functions of other packages that \<open>transactions.go\<close> calls are parameters of the
  model: the x-only key parser \<open>schnorr.ParsePubKey\<close>, the transaction decoder
  \<open>bbn.NewBTCTxFromHex\<close>, the two operations of the staking library and
  \<open>utils.SerializeBtcTransaction\<close>. A slice of key pointers is a list of optional keys
  (\<open>None\<close> is the nil pointer).
\<close>

record ('pk, 'tx) extern =
  schnorr_ParsePubKey :: "byte list \<Rightarrow> error + 'pk"
  NewBTCTxFromHex :: "string \<Rightarrow> error + 'tx"
  BuildV0IdentifiableStakingOutputsAndTx ::
    "byte list \<Rightarrow> 'pk \<Rightarrow> 'pk \<Rightarrow> 'pk option list \<Rightarrow> 32 word \<Rightarrow> 16 word \<Rightarrow> 64 word \<Rightarrow> Params
       \<Rightarrow> error + 'tx"
  ParseV0StakingTx ::
    "'tx \<Rightarrow> byte list \<Rightarrow> 'pk option list \<Rightarrow> 32 word \<Rightarrow> Params \<Rightarrow> error + unit"
  SerializeBtcTransaction :: "'tx \<Rightarrow> error + byte list"

text \<open>
  The calls a command makes to the staking library, with their arguments, in the order
  they are made.
\<close>

datatype ('pk, 'tx) libcall =
    BuildCall "byte list" 'pk 'pk "'pk option list" "32 word" "16 word" "64 word" Params
  | ParseCall 'tx "byte list" "'pk option list" "32 word" Params

subsection \<open>Keys\<close>

definition parseSchnorPubKeyFromHex :: "('pk, 'tx) extern \<Rightarrow> string \<Rightarrow> error + 'pk" where
  "parseSchnorPubKeyFromHex ext pkHex =
     (case hex_DecodeString pkHex of
        Inl err \<Rightarrow> Inl err
      | Inr pkBytes \<Rightarrow>
          (case schnorr_ParsePubKey ext pkBytes of
             Inl err \<Rightarrow> Inl err
           | Inr pk \<Rightarrow> Inr pk))"

definition parseSchnorPubKeyFromCliCtx :: "('pk, 'tx) extern \<Rightarrow> Context \<Rightarrow> string \<Rightarrow> error + 'pk" where
  "parseSchnorPubKeyFromCliCtx ext ctx flagName = parseSchnorPubKeyFromHex ext (String ctx flagName)"

text \<open>
  The loop of \<open>parseCovenantKeysFromSlice\<close>: \<open>i\<close> is the index of the next element,
  \<open>covenantPubKeys\<close> the slice allocated before the loop and written at \<open>i\<close>.
\<close>

fun parseCovenantKeysLoop ::
  "('pk, 'tx) extern \<Rightarrow> nat \<Rightarrow> string list \<Rightarrow> 'pk option list \<Rightarrow> error + 'pk option list" where
  "parseCovenantKeysLoop ext i [] covenantPubKeys = Inr covenantPubKeys"
| "parseCovenantKeysLoop ext i (fpPk # rest) covenantPubKeys =
     (case hex_DecodeString fpPk of
        Inl err \<Rightarrow> Inl err
      | Inr fpPkBytes \<Rightarrow>
          (case schnorr_ParsePubKey ext fpPkBytes of
             Inl err \<Rightarrow> Inl err
           | Inr fpSchnorrKey \<Rightarrow>
               parseCovenantKeysLoop ext (Suc i) rest (covenantPubKeys[i := Some fpSchnorrKey])))"

definition parseCovenantKeysFromSlice ::
  "('pk, 'tx) extern \<Rightarrow> string list \<Rightarrow> error + 'pk option list" where
  "parseCovenantKeysFromSlice ext covenantMembersPks =
     parseCovenantKeysLoop ext 0 covenantMembersPks (replicate (length covenantMembersPks) None)"

definition parseCovenantKeysFromCliCtx :: "('pk, 'tx) extern \<Rightarrow> Context \<Rightarrow> error + 'pk option list" where
  "parseCovenantKeysFromCliCtx ext ctx = parseCovenantKeysFromSlice ext (StringSlice ctx covenantMembersPksFlag)"


section \<open>The commands\<close>

record CreatePhase1StakingTxResponse =
  StakingTxHex :: string

text \<open>
  Each command returns its error, or what it prints when it succeeds, together with the
  calls it made to the staking library.
\<close>

definition MakeCreatePhase1StakingTxResponse ::
  "('pk, 'tx) extern \<Rightarrow> byte list \<Rightarrow> 'pk \<Rightarrow> 'pk \<Rightarrow> 'pk option list \<Rightarrow> 32 word \<Rightarrow> 16 word \<Rightarrow> 64 word
     \<Rightarrow> Params \<Rightarrow> (error + CreatePhase1StakingTxResponse) \<times> ('pk, 'tx) libcall list" where
  "MakeCreatePhase1StakingTxResponse ext magicBytes stakerPk fpPk covenantMembersPks covenantQuorum
       stakingTimeBlocks stakingAmount net =
     (let calls = [BuildCall magicBytes stakerPk fpPk covenantMembersPks covenantQuorum
                     stakingTimeBlocks stakingAmount net] in
      case BuildV0IdentifiableStakingOutputsAndTx ext magicBytes stakerPk fpPk covenantMembersPks
             covenantQuorum stakingTimeBlocks stakingAmount net of
        Inl err \<Rightarrow> (Inl err, calls)
      | Inr tx \<Rightarrow>
          (case SerializeBtcTransaction ext tx of
             Inl err \<Rightarrow> (Inl err, calls)
           | Inr serializedTx \<Rightarrow>
               (Inr \<lparr>StakingTxHex = hex_EncodeToString serializedTx\<rparr>, calls)))"

definition checkPhase1StakingTransaction ::
  "('pk, 'tx) extern \<Rightarrow> Context \<Rightarrow> (error + string) \<times> ('pk, 'tx) libcall list" where
  "checkPhase1StakingTransaction ext ctx =
     (let net = String ctx networkNameFlag in
      case GetBtcNetworkParams net of
        Inl err \<Rightarrow> (Inl err, [])
      | Inr currentParams \<Rightarrow>
      (let stakingTxHex = String ctx stakingTransactionFlag in
       case NewBTCTxFromHex ext stakingTxHex of
         Inl err \<Rightarrow> (Inl err, [])
       | Inr tx \<Rightarrow>
       (case parseMagicBytesFromCliCtx ctx of
          Inl err \<Rightarrow> (Inl err, [])
        | Inr magicBytes \<Rightarrow>
        (case parseCovenantKeysFromCliCtx ext ctx of
           Inl err \<Rightarrow> (Inl err, [])
         | Inr covenantMembersPks \<Rightarrow>
         (let covenantQuorum = (ucast (Uint64 ctx covenantQuorumFlag) :: 32 word);
              calls = [ParseCall tx magicBytes covenantMembersPks covenantQuorum currentParams] in
          case ParseV0StakingTx ext tx magicBytes covenantMembersPks covenantQuorum currentParams of
            Inl err \<Rightarrow> (Inl err, calls)
          | Inr _ \<Rightarrow> (Inr ''Provided transaction is valid staking transaction!'', calls))))))"

definition createPhase1StakingTransaction ::
  "('pk, 'tx) extern \<Rightarrow> Context
     \<Rightarrow> (error + CreatePhase1StakingTxResponse) \<times> ('pk, 'tx) libcall list" where
  "createPhase1StakingTransaction ext ctx =
     (let net = String ctx networkNameFlag in
      case GetBtcNetworkParams net of
        Inl err \<Rightarrow> (Inl err, [])
      | Inr currentParams \<Rightarrow>
      (case parseSchnorPubKeyFromCliCtx ext ctx stakerPublicKeyFlag of
         Inl err \<Rightarrow> (Inl err, [])
       | Inr stakerPk \<Rightarrow>
       (case parseSchnorPubKeyFromCliCtx ext ctx finalityProviderKeyFlag of
          Inl err \<Rightarrow> (Inl err, [])
        | Inr fpPk \<Rightarrow>
        (case parseStakingAmountFromCliCtx ctx of
           Inl err \<Rightarrow> (Inl err, [])
         | Inr stakingAmount \<Rightarrow>
         (case parseStakingTimeBlocksFromCliCtx ctx of
            Inl err \<Rightarrow> (Inl err, [])
          | Inr stakingTimeBlocks \<Rightarrow>
          (case parseMagicBytesFromCliCtx ctx of
             Inl err \<Rightarrow> (Inl err, [])
           | Inr magicBytes \<Rightarrow>
           (case parseCovenantKeysFromCliCtx ext ctx of
              Inl err \<Rightarrow> (Inl err, [])
            | Inr covenantMembersPks \<Rightarrow>
            (let covenantQuorum = (ucast (Uint64 ctx covenantQuorumFlag) :: 32 word) in
             case MakeCreatePhase1StakingTxResponse ext magicBytes stakerPk fpPk covenantMembersPks
                    covenantQuorum stakingTimeBlocks stakingAmount currentParams of
               (Inl err, calls) \<Rightarrow> (Inl err, calls)
             | (Inr resp, calls) \<Rightarrow> (Inr resp, calls)))))))))"

subsection \<open>The JSON input\<close>

text \<open>
  What \<open>createPhase1StakingTransactionFromJson\<close> uses and the sources do not hold is a
  parameter: the file system (\<open>os.FileExists\<close>, \<open>os.ReadFile\<close>), the type
  \<open>InputBtcStakingTx\<close> (the type variable \<open>'i\<close>) with its zero value and its \<open>%+v\<close>
  rendering, \<open>json.Unmarshal\<close> into it (which returns the structure as it has left it,
  and its error, \<open>None\<close> for nil), and the method \<open>ToCreatePhase1StakingTxResponse\<close>.
\<close>

record ('i, 'pk, 'tx) json_extern =
  FileExists :: "string \<Rightarrow> bool"
  ReadFile :: "string \<Rightarrow> error + string"
  zero_InputBtcStakingTx :: 'i
  json_Unmarshal :: "string \<Rightarrow> 'i \<Rightarrow> 'i \<times> error option"
  fmt_plus_v :: "'i \<Rightarrow> string"
  ToCreatePhase1StakingTxResponse ::
    "'i \<Rightarrow> (error + CreatePhase1StakingTxResponse) \<times> ('pk, 'tx) libcall list"

text \<open>\<open>ctx.Args().First()\<close>: the first positional argument, or the empty string.\<close>

definition First :: "string list \<Rightarrow> string" where
  "First args = (case args of [] \<Rightarrow> [] | a # _ \<Rightarrow> a)"

definition createPhase1StakingTransactionFromJson ::
  "('i, 'pk, 'tx) json_extern \<Rightarrow> Context
     \<Rightarrow> (error + CreatePhase1StakingTxResponse) \<times> ('pk, 'tx) libcall list" where
  "createPhase1StakingTransactionFromJson env ctx =
     (let inputFilePath = First (Args ctx) in
      if length inputFilePath = 0 then (Inl (Errorf ''json file input is empty''), [])
      else if \<not> FileExists env inputFilePath
      then (Inl (Errorf (''json file input '' @ inputFilePath @ '' does not exist'')), [])
      else
        (case ReadFile env inputFilePath of
           Inl err \<Rightarrow>
             (Inl (Errorf (''error reading file '' @ inputFilePath @ '': '' @ Error err)), [])
         | Inr bz \<Rightarrow>
             (case json_Unmarshal env bz (zero_InputBtcStakingTx env) of
                (input, Some err) \<Rightarrow>
                  (Inl (Errorf (''error parsing file content '' @ bz @ '' to struct ''
                                 @ fmt_plus_v env input @ '': '' @ Error err)), [])
              | (input, None) \<Rightarrow>
                  (case ToCreatePhase1StakingTxResponse env input of
                     (Inl err, calls) \<Rightarrow> (Inl err, calls)
                   | (Inr resp, calls) \<Rightarrow> (Inr resp, calls)))))"

section \<open>The RPC client\<close>

text \<open>
  A value stored in the \<open>map[string]interface{}\<close> of a request: a pointer to an
  integer (\<open>None\<close> is the nil pointer, which is sent as \<open>null\<close>), a string or a 64-bit
  integer. \<open>client.Call\<close> is a parameter: it takes the method name and the parameters.
\<close>

datatype param = IntPtr "int option" | StringVal string | Int64Val "64 word"

definition Health :: "(string \<Rightarrow> (string \<rightharpoonup> param) \<Rightarrow> error + 'r) \<Rightarrow> error + 'r" where
  "Health Call =
     (case Call ''health'' Map.empty of
        Inl err \<Rightarrow> Inl err
      | Inr result \<Rightarrow> Inr result)"

definition ListOutputs :: "(string \<Rightarrow> (string \<rightharpoonup> param) \<Rightarrow> error + 'r) \<Rightarrow> error + 'r" where
  "ListOutputs Call =
     (case Call ''list_outputs'' Map.empty of
        Inl err \<Rightarrow> Inl err
      | Inr result \<Rightarrow> Inr result)"

definition Stake ::
  "(string \<Rightarrow> (string \<rightharpoonup> param) \<Rightarrow> error + 'r) \<Rightarrow> string \<Rightarrow> 64 word \<Rightarrow> string \<Rightarrow> 64 word
     \<Rightarrow> error + 'r" where
  "Stake Call stakerAddress stakingAmount validatorPk stakingTimeBlocks =
     (let params = Map.empty;
          params = params(''stakerAddress'' \<mapsto> StringVal stakerAddress);
          params = params(''stakingAmount'' \<mapsto> Int64Val stakingAmount);
          params = params(''validatorPk'' \<mapsto> StringVal validatorPk);
          params = params(''stakingTimeBlocks'' \<mapsto> Int64Val stakingTimeBlocks) in
      case Call ''stake'' params of
        Inl err \<Rightarrow> Inl err
      | Inr result \<Rightarrow> Inr result)"

definition BabylonValidators ::
  "(string \<Rightarrow> (string \<rightharpoonup> param) \<Rightarrow> error + 'r) \<Rightarrow> int option \<Rightarrow> int option \<Rightarrow> error + 'r" where
  "BabylonValidators Call offset limit =
     (let params = Map.empty;
          params = (if limit \<noteq> None then params(''limit'' \<mapsto> IntPtr limit) else params);
          params = (if offset \<noteq> None then params(''offset'' \<mapsto> IntPtr offset) else params) in
      case Call ''babylon_validators'' params of
        Inl err \<Rightarrow> Inl err
      | Inr result \<Rightarrow> Inr result)"

definition ListStakingTransactions ::
  "(string \<Rightarrow> (string \<rightharpoonup> param) \<Rightarrow> error + 'r) \<Rightarrow> int option \<Rightarrow> int option \<Rightarrow> error + 'r" where
  "ListStakingTransactions Call offset limit =
     (let params = Map.empty;
          params = (if limit \<noteq> None then params(''limit'' \<mapsto> IntPtr limit) else params);
          params = (if offset \<noteq> None then params(''offset'' \<mapsto> IntPtr offset) else params) in
      case Call ''list_staking_transactions'' params of
        Inl err \<Rightarrow> Inl err
      | Inr result \<Rightarrow> Inr result)"


section \<open>Concrete instances\<close>

text \<open>
  A context built from the flags that were given: a flag that was not given reads as the
  zero value of its type, as \<open>cli.Context\<close> has it.
\<close>

definition cli_ctx ::
  "(string \<times> string) list \<Rightarrow> (string \<times> string list) list \<Rightarrow> (string \<times> 64 word) list
     \<Rightarrow> (string \<times> 64 word) list \<Rightarrow> string list \<Rightarrow> Context" where
  "cli_ctx strings slices ints uints args =
     \<lparr>String = (\<lambda>f. case map_of strings f of None \<Rightarrow> [] | Some v \<Rightarrow> v),
      StringSlice = (\<lambda>f. case map_of slices f of None \<Rightarrow> [] | Some v \<Rightarrow> v),
      Int64 = (\<lambda>f. case map_of ints f of None \<Rightarrow> 0 | Some v \<Rightarrow> v),
      Uint64 = (\<lambda>f. case map_of uints f of None \<Rightarrow> 0 | Some v \<Rightarrow> v),
      Args = args\<rparr>"

text \<open>
  An instance of the functions of other packages, on which the commands can be run: keys
  and transactions are their bytes; the key parser accepts exactly the 32-byte strings;
  the library builds a transaction holding the magic bytes and accepts every transaction.
\<close>

definition example_ext :: "(byte list, byte list) extern" where
  "example_ext =
     \<lparr>schnorr_ParsePubKey =
        (\<lambda>b. if length b \<noteq> 32 then Inl (Errorf ''bad pubkey byte string size'') else Inr b),
      NewBTCTxFromHex = hex_DecodeString,
      BuildV0IdentifiableStakingOutputsAndTx = (\<lambda>magicBytes _ _ _ _ _ _ _. Inr magicBytes),
      ParseV0StakingTx = (\<lambda>_ _ _ _ _. Inr ()),
      SerializeBtcTransaction = (\<lambda>tx. Inr tx)\<rparr>"

text \<open>
  A library that refuses every request and reports the quorum it was given: with it, the
  error of a command shows the argument that reached the library.
\<close>

definition probe_ext :: "(byte list, byte list) extern" where
  "probe_ext =
     example_ext
       \<lparr>BuildV0IdentifiableStakingOutputsAndTx :=
          (\<lambda>_ _ _ _ covenantQuorum _ _ _. Inl (Errorf (''quorum '' @ fmt_d (uint covenantQuorum)))),
        ParseV0StakingTx :=
          (\<lambda>_ _ _ covenantQuorum _. Inl (Errorf (''quorum '' @ fmt_d (uint covenantQuorum))))\<rparr>"

definition key_a :: string where
  "key_a = ''79be667ef9dcbbac55a06295ce870b07029bfcdb2dce28d959f2815b16f81798''"

definition key_b :: string where
  "key_b = ''c6047f9441ed7d6d3045406e95c07cd85c778e4b8cef3ca7abac09b95c709ee5''"

definition key_c :: string where
  "key_c = ''f9308a019258c31049344f85f89d5229b531c845836f99b08601f113bce036f9''"

text \<open>The bytes of \<open>key_a\<close> behind the prefix of a compressed key: 33 bytes.\<close>

definition compressed_key_a :: string where
  "compressed_key_a = ''02'' @ key_a"

text \<open>
  A serialised transaction that has an input: version 2, one input (output 0 of the
  transaction whose hash is the bytes of \<open>key_a\<close>, empty script, final sequence), one
  output (10000, empty script), lock time 0.
\<close>

definition example_tx_hex :: string where
  "example_tx_hex =
     ''02000000'' @ ''01'' @ key_a @ ''00000000'' @ ''00'' @ ''ffffffff''
     @ ''01'' @ ''1027000000000000'' @ ''00'' @ ''00000000''"

text \<open>
  The flags of the spec's example: amount 10000, 100 blocks, 4 magic bytes, three covenant
  keys with quorum 2, network regtest; each argument overrides the example's value.
\<close>

definition example_ctx ::
  "string \<Rightarrow> string \<Rightarrow> string \<Rightarrow> string list \<Rightarrow> 64 word \<Rightarrow> 64 word \<Rightarrow> 64 word \<Rightarrow> Context" where
  "example_ctx network stakerPk magicBytes covenantPks amount timeBlocks quorum =
     cli_ctx
       [(''network'', network), (''staker-pk'', stakerPk), (''finality-provider-pk'', key_b),
        (''magic-bytes'', magicBytes), (''staking-transaction'', example_tx_hex)]
       [(''covenant-committee-pks'', covenantPks)]
       [(''staking-amount'', amount), (''staking-time-blocks'', timeBlocks)]
       [(''covenant-quorum'', quorum)]
       []"

text \<open>The quorum argument of a call to the staking library.\<close>

fun libcall_quorum :: "('pk, 'tx) libcall \<Rightarrow> 32 word" where
  "libcall_quorum (BuildCall _ _ _ _ covenantQuorum _ _ _) = covenantQuorum"
| "libcall_quorum (ParseCall _ _ _ covenantQuorum _) = covenantQuorum"


text \<open>The bytes that the three example keys decode to.\<close>

definition bytes_a :: "byte list" where
  "bytes_a =
     [0x79, 0xbe, 0x66, 0x7e, 0xf9, 0xdc, 0xbb, 0xac, 0x55, 0xa0, 0x62, 0x95, 0xce, 0x87, 0x0b, 0x07,
      0x02, 0x9b, 0xfc, 0xdb, 0x2d, 0xce, 0x28, 0xd9, 0x59, 0xf2, 0x81, 0x5b, 0x16, 0xf8, 0x17, 0x98]"

definition bytes_b :: "byte list" where
  "bytes_b =
     [0xc6, 0x04, 0x7f, 0x94, 0x41, 0xed, 0x7d, 0x6d, 0x30, 0x45, 0x40, 0x6e, 0x95, 0xc0, 0x7c, 0xd8,
      0x5c, 0x77, 0x8e, 0x4b, 0x8c, 0xef, 0x3c, 0xa7, 0xab, 0xac, 0x09, 0xb9, 0x5c, 0x70, 0x9e, 0xe5]"

definition bytes_c :: "byte list" where
  "bytes_c =
     [0xf9, 0x30, 0x8a, 0x01, 0x92, 0x58, 0xc3, 0x10, 0x49, 0x34, 0x4f, 0x85, 0xf8, 0x9d, 0x52, 0x29,
      0xb5, 0x31, 0xc8, 0x45, 0x83, 0x6f, 0x99, 0xb0, 0x86, 0x01, 0xf1, 0x13, 0xbc, 0xe0, 0x36, 0xf9]"

definition example_tx_bytes :: "byte list" where
  "example_tx_bytes =
     [2, 0, 0, 0, 1] @ bytes_a @ [0, 0, 0, 0, 0, 0xff, 0xff, 0xff, 0xff,
      1, 0x10, 0x27, 0, 0, 0, 0, 0, 0, 0, 0, 0, 0, 0]"

subsection \<open>The JSON input on concrete files\<close>

text \<open>
  Modelled from the spec: the type \<open>InputBtcStakingTx\<close>, whose declaration is not among
  the sources. The spec has it as a JSON-serializable mirror of StakingParameters: magic
  bytes, staker key, finality-provider key, covenant keys, covenant quorum, staking time
  in blocks, staking amount and network; keys and magic bytes are hexadecimal strings, as
  on the command line.
\<close>

record InputBtcStakingTx =
  in_magicBytes :: string
  in_stakerKey :: string
  in_finalityProviderKey :: string
  in_covenantKeys :: "string list"
  in_covenantQuorum :: "32 word"
  in_stakingTimeBlocks :: "16 word"
  in_stakingAmount :: "64 word"
  in_network :: string

definition zero_input :: InputBtcStakingTx where
  "zero_input =
     \<lparr>in_magicBytes = [], in_stakerKey = [], in_finalityProviderKey = [], in_covenantKeys = [],
      in_covenantQuorum = 0, in_stakingTimeBlocks = 0, in_stakingAmount = 0, in_network = []\<rparr>"

text \<open>
  Modelled from the spec: the method \<open>ToCreatePhase1StakingTxResponse\<close> of
  \<open>InputBtcStakingTx\<close>, which is not among the sources. The spec has the loaded structure
  converted directly to a Builder invocation: the fields are parsed as the command line's
  are and handed to \<open>MakeCreatePhase1StakingTxResponse\<close>.
\<close>

definition InputBtcStakingTx_ToCreatePhase1StakingTxResponse ::
  "('pk, 'tx) extern \<Rightarrow> InputBtcStakingTx
     \<Rightarrow> (error + CreatePhase1StakingTxResponse) \<times> ('pk, 'tx) libcall list" where
  "InputBtcStakingTx_ToCreatePhase1StakingTxResponse ext tx =
     (case GetBtcNetworkParams (in_network tx) of
        Inl err \<Rightarrow> (Inl err, [])
      | Inr currentParams \<Rightarrow>
      (case parseSchnorPubKeyFromHex ext (in_stakerKey tx) of
         Inl err \<Rightarrow> (Inl err, [])
       | Inr stakerPk \<Rightarrow>
       (case parseSchnorPubKeyFromHex ext (in_finalityProviderKey tx) of
          Inl err \<Rightarrow> (Inl err, [])
        | Inr fpPk \<Rightarrow>
        (case parseMagicBytesFromHex (in_magicBytes tx) of
           Inl err \<Rightarrow> (Inl err, [])
         | Inr magicBytes \<Rightarrow>
         (case parseCovenantKeysFromSlice ext (in_covenantKeys tx) of
            Inl err \<Rightarrow> (Inl err, [])
          | Inr covenantMembersPks \<Rightarrow>
              MakeCreatePhase1StakingTxResponse ext magicBytes stakerPk fpPk covenantMembersPks
                (in_covenantQuorum tx) (in_stakingTimeBlocks tx) (in_stakingAmount tx)
                currentParams)))))"

text \<open>
  Modelled from the spec: the \<open>%+v\<close> rendering of an \<open>InputBtcStakingTx\<close> (the decode
  error includes the target structure): the fields by name, in braces.
\<close>

definition fmt_plus_v_input :: "InputBtcStakingTx \<Rightarrow> string" where
  "fmt_plus_v_input tx =
     ''{magicBytes:'' @ in_magicBytes tx @ '' stakerKey:'' @ in_stakerKey tx
     @ '' finalityProviderKey:'' @ in_finalityProviderKey tx
     @ '' covenantKeys:['' @ concat (map (\<lambda>k. k @ '' '') (in_covenantKeys tx)) @ '']''
     @ '' covenantQuorum:'' @ fmt_d (uint (in_covenantQuorum tx))
     @ '' stakingTimeBlocks:'' @ fmt_d (uint (in_stakingTimeBlocks tx))
     @ '' stakingAmount:'' @ fmt_d (sint (in_stakingAmount tx))
     @ '' network:'' @ in_network tx @ ''}''"

text \<open>
  \<open>json.Unmarshal\<close> on the two file contents used below. On the empty object it sets no
  field and returns nil: a field that the content does not have keeps its value. An array
  is not decoded into a structure.
\<close>

definition json_Unmarshal_example ::
  "string \<Rightarrow> InputBtcStakingTx \<Rightarrow> InputBtcStakingTx \<times> error option" where
  "json_Unmarshal_example bz input =
     (if bz = ''{}'' then (input, None)
      else (input, Some (Errorf
        ''json: cannot unmarshal array into Go value of type transaction.InputBtcStakingTx'')))"

definition example_files :: "(string \<times> string) list" where
  "example_files = [(''/tmp/empty.json'', ''{}''), (''/tmp/array.json'', ''[]'')]"

definition example_json_env :: "(InputBtcStakingTx, byte list, byte list) json_extern" where
  "example_json_env =
     \<lparr>FileExists = (\<lambda>p. map_of example_files p \<noteq> None),
      ReadFile = (\<lambda>p. case map_of example_files p of
                         None \<Rightarrow> Inl (Errorf (''open '' @ p @ '': no such file or directory''))
                       | Some bz \<Rightarrow> Inr bz),
      zero_InputBtcStakingTx = zero_input,
      json_Unmarshal = json_Unmarshal_example,
      fmt_plus_v = fmt_plus_v_input,
      ToCreatePhase1StakingTxResponse = InputBtcStakingTx_ToCreatePhase1StakingTxResponse example_ext\<rparr>"

text \<open>A result is a failure whose message names \<open>p\<close>: \<open>p\<close> occurs in the message.\<close>

fun contains :: "string \<Rightarrow> string \<Rightarrow> bool" where
  "contains [] p = (p = [])"
| "contains (c # cs) p = (prefix p (c # cs) \<or> contains cs p)"

definition fails_naming :: "string \<Rightarrow> error + 'a \<Rightarrow> bool" where
  "fails_naming p r = (case r of Inl err \<Rightarrow> contains (Error err) p | Inr _ \<Rightarrow> False)"

section \<open>Formatting and word facts\<close>

lemmas flag_defs = stakingTransactionFlag_def magicBytesFlag_def covenantMembersPksFlag_def
  covenantQuorumFlag_def networkNameFlag_def stakerPublicKeyFlag_def finalityProviderKeyFlag_def
  StakingAmountFlag_def StakingTimeBlocksFlag_def

lemma fmt_d_MaxUint16: "fmt_d MaxUint16 = ''65535''"
  by (simp add: fmt_d_def MaxUint16_def fmt_nat.simps digit_char_def)

lemma fmt_d_MagicBytesLen: "fmt_d (int MagicBytesLen) = ''4''"
  by (simp add: fmt_d_def MagicBytesLen_def fmt_nat.simps digit_char_def)

lemma uint_of_nonneg_sint:
  fixes t :: "64 word"
  assumes "0 \<le> sint t"
  shows "uint t = sint t"
proof -
  have "sint t < 2 ^ 64"
    using sint_lt [of t] by simp
  then have "take_bit 64 (sint t) = sint t"
    using assms by (simp add: take_bit_int_eq_self)
  then show ?thesis
    using uint_sint [of t] by simp
qed

lemma uint_ucast16:
  fixes t :: "64 word"
  assumes "0 \<le> sint t" "sint t \<le> 65535"
  shows "uint (ucast t :: 16 word) = sint t"
proof -
  have "uint (ucast t :: 16 word) = take_bit 16 (uint t)"
    by (simp add: unsigned_ucast_eq)
  also have "\<dots> = take_bit 16 (sint t)"
    using assms(1) by (simp add: uint_of_nonneg_sint)
  also have "\<dots> = sint t"
    using assms by (simp add: take_bit_int_eq_self)
  finally show ?thesis .
qed

subsection \<open>The example context and the example keys\<close>

lemma example_ctx_ints [simp]:
  "Int64 (example_ctx n s m c a t q) StakingTimeBlocksFlag = t"
  "Int64 (example_ctx n s m c a t q) StakingAmountFlag = a"
  "Uint64 (example_ctx n s m c a t q) covenantQuorumFlag = q"
  by (simp_all add: example_ctx_def cli_ctx_def flag_defs)

lemma example_ctx_strings [simp]:
  "String (example_ctx n s m c a t q) networkNameFlag = n"
  "String (example_ctx n s m c a t q) stakerPublicKeyFlag = s"
  "String (example_ctx n s m c a t q) finalityProviderKeyFlag = key_b"
  "String (example_ctx n s m c a t q) magicBytesFlag = m"
  "String (example_ctx n s m c a t q) stakingTransactionFlag = example_tx_hex"
  "StringSlice (example_ctx n s m c a t q) covenantMembersPksFlag = c"
  by (simp_all add: example_ctx_def cli_ctx_def flag_defs)

lemma hex_01020304: "hex_DecodeString ''01020304'' = Inr [1, 2, 3, 4]"
  by (simp add: hex_DecodeString_def fromHexChar_def)

lemma hex_0102: "hex_DecodeString ''0102'' = Inr [1, 2]"
  by (simp add: hex_DecodeString_def fromHexChar_def)

lemma hex_0102030405: "hex_DecodeString ''0102030405'' = Inr [1, 2, 3, 4, 5]"
  by (simp add: hex_DecodeString_def fromHexChar_def)

lemma hex_zz: "hex_DecodeString ''zz'' = Inl (InvalidByteError CHR ''z'')"
  by (simp add: hex_DecodeString_def fromHexChar_def)

lemma hex_key_a: "hex_DecodeString key_a = Inr bytes_a"
  by (simp add: hex_DecodeString_def fromHexChar_def key_a_def bytes_a_def)

lemma hex_key_b: "hex_DecodeString key_b = Inr bytes_b"
  by (simp add: hex_DecodeString_def fromHexChar_def key_b_def bytes_b_def)

lemma hex_key_c: "hex_DecodeString key_c = Inr bytes_c"
  by (simp add: hex_DecodeString_def fromHexChar_def key_c_def bytes_c_def)

lemma hex_compressed_key_a: "hex_DecodeString compressed_key_a = Inr (2 # bytes_a)"
  by (simp add: hex_DecodeString_def fromHexChar_def compressed_key_a_def key_a_def bytes_a_def)

lemma length_bytes [simp]: "length bytes_a = 32" "length bytes_b = 32" "length bytes_c = 32"
  by (simp_all add: bytes_a_def bytes_b_def bytes_c_def)

section \<open>Staking time\<close>

lemma timeBlocks_low:
  "sint (Int64 ctx StakingTimeBlocksFlag) \<le> 0 \<Longrightarrow>
   parseStakingTimeBlocksFromCliCtx ctx = Inl (Errorf ''staking time blocks should be greater than 0'')"
  by (simp add: parseStakingTimeBlocksFromCliCtx_def Let_def)

lemma timeBlocks_high:
  "65535 < sint (Int64 ctx StakingTimeBlocksFlag) \<Longrightarrow>
   parseStakingTimeBlocksFromCliCtx ctx =
     Inl (Errorf ''staking time blocks should be less or equal to 65535'')"
  unfolding parseStakingTimeBlocksFromCliCtx_def Let_def fmt_d_MaxUint16
  by (simp add: MaxUint16_def)

lemma timeBlocks_ok:
  "1 \<le> sint (Int64 ctx StakingTimeBlocksFlag) \<Longrightarrow> sint (Int64 ctx StakingTimeBlocksFlag) \<le> 65535 \<Longrightarrow>
   parseStakingTimeBlocksFromCliCtx ctx = Inr (ucast (Int64 ctx StakingTimeBlocksFlag))"
  unfolding parseStakingTimeBlocksFromCliCtx_def Let_def
  by (simp add: MaxUint16_def)

text \<open>
  C4. Whatever the other flags are, a staking time that is zero or negative is refused with
  one message and a staking time above 65535 with another, different message; a staking
  time from 1 to 65535 is accepted and returned as the 16-bit integer of the same value.
\<close>

theorem parseStakingTimeBlocks_range:
  "(sint (Int64 ctx StakingTimeBlocksFlag) \<le> 0 \<longrightarrow>
      parseStakingTimeBlocksFromCliCtx ctx =
        Inl (Errorf ''staking time blocks should be greater than 0''))
   \<and> (65535 < sint (Int64 ctx StakingTimeBlocksFlag) \<longrightarrow>
      parseStakingTimeBlocksFromCliCtx ctx =
        Inl (Errorf ''staking time blocks should be less or equal to 65535''))
   \<and> ''staking time blocks should be greater than 0'' \<noteq>
       ''staking time blocks should be less or equal to 65535''
   \<and> (1 \<le> sint (Int64 ctx StakingTimeBlocksFlag) \<and> sint (Int64 ctx StakingTimeBlocksFlag) \<le> 65535 \<longrightarrow>
      parseStakingTimeBlocksFromCliCtx ctx = Inr (ucast (Int64 ctx StakingTimeBlocksFlag))
      \<and> uint (ucast (Int64 ctx StakingTimeBlocksFlag) :: 16 word) = sint (Int64 ctx StakingTimeBlocksFlag))"
  using timeBlocks_low [of ctx] timeBlocks_high [of ctx] timeBlocks_ok [of ctx]
    uint_ucast16 [of "Int64 ctx StakingTimeBlocksFlag"]
  by simp

theorem parseStakingTimeBlocks_range_witness:
  "parseStakingTimeBlocksFromCliCtx (example_ctx ''regtest'' key_a ''01020304'' [key_a] 10000 1 1) = Inr 1
   \<and> parseStakingTimeBlocksFromCliCtx (example_ctx ''regtest'' key_a ''01020304'' [key_a] 10000 65535 1) = Inr 65535
   \<and> parseStakingTimeBlocksFromCliCtx (example_ctx ''regtest'' key_a ''01020304'' [key_a] 10000 0 1)
       = Inl (Errorf ''staking time blocks should be greater than 0'')
   \<and> parseStakingTimeBlocksFromCliCtx (example_ctx ''regtest'' key_a ''01020304'' [key_a] 10000 (- 7) 1)
       = Inl (Errorf ''staking time blocks should be greater than 0'')
   \<and> parseStakingTimeBlocksFromCliCtx (example_ctx ''regtest'' key_a ''01020304'' [key_a] 10000 65536 1)
       = Inl (Errorf ''staking time blocks should be less or equal to 65535'')"
  using parseStakingTimeBlocks_range [of "example_ctx ''regtest'' key_a ''01020304'' [key_a] 10000 1 1"]
    parseStakingTimeBlocks_range [of "example_ctx ''regtest'' key_a ''01020304'' [key_a] 10000 65535 1"]
    parseStakingTimeBlocks_range [of "example_ctx ''regtest'' key_a ''01020304'' [key_a] 10000 0 1"]
    parseStakingTimeBlocks_range [of "example_ctx ''regtest'' key_a ''01020304'' [key_a] 10000 (- 7) 1"]
    parseStakingTimeBlocks_range [of "example_ctx ''regtest'' key_a ''01020304'' [key_a] 10000 65536 1"]
  by simp

section \<open>Magic bytes\<close>

text \<open>
  C6. For a hexadecimal string that decodes, \<open>parseMagicBytesFromHex\<close> fails with the
  message naming the expected length, 4, when the decoded bytes are not 4 bytes long, and
  returns the decoded bytes when they are.
\<close>

theorem parseMagicBytesFromHex_length:
  assumes "hex_DecodeString s = Inr bs"
  shows "(length bs \<noteq> MagicBytesLen \<longrightarrow>
            parseMagicBytesFromHex s = Inl (Errorf ''magic bytes should be of length 4''))
       \<and> (length bs = MagicBytesLen \<longrightarrow> parseMagicBytesFromHex s = Inr bs)"
  using assms unfolding parseMagicBytesFromHex_def fmt_d_MagicBytesLen by simp

theorem parseMagicBytesFromHex_length_witness:
  "parseMagicBytesFromHex ''01020304'' = Inr [1, 2, 3, 4]
   \<and> parseMagicBytesFromHex ''0102'' = Inl (Errorf ''magic bytes should be of length 4'')
   \<and> parseMagicBytesFromHex ''0102030405'' = Inl (Errorf ''magic bytes should be of length 4'')"
  using parseMagicBytesFromHex_length [OF hex_01020304] parseMagicBytesFromHex_length [OF hex_0102]
    parseMagicBytesFromHex_length [OF hex_0102030405]
  by (simp add: MagicBytesLen_def)

section \<open>Covenant keys\<close>

lemma parseSchnorPubKeyFromHex_Inr:
  "parseSchnorPubKeyFromHex ext s = Inr k \<longleftrightarrow>
     (\<exists>bs. hex_DecodeString s = Inr bs \<and> schnorr_ParsePubKey ext bs = Inr k)"
  by (auto simp: parseSchnorPubKeyFromHex_def split: sum.splits)

lemma parseSchnorPubKeyFromHex_Inl:
  "parseSchnorPubKeyFromHex ext s = Inl e \<longleftrightarrow>
     hex_DecodeString s = Inl e \<or> (\<exists>bs. hex_DecodeString s = Inr bs \<and> schnorr_ParsePubKey ext bs = Inl e)"
  by (auto simp: parseSchnorPubKeyFromHex_def split: sum.splits)

lemma loop_step:
  "parseCovenantKeysLoop ext i (s # rest) arr =
     (case parseSchnorPubKeyFromHex ext s of
        Inl e \<Rightarrow> Inl e
      | Inr k \<Rightarrow> parseCovenantKeysLoop ext (Suc i) rest (arr[i := Some k]))"
  by (simp add: parseSchnorPubKeyFromHex_def split: sum.splits)

lemma loop_all_valid:
  assumes "\<forall>s\<in>set xs. \<exists>k. parseSchnorPubKeyFromHex ext s = Inr k"
    and "i + length xs \<le> length arr"
  shows "parseCovenantKeysLoop ext i xs arr =
           Inr (take i arr @ map (\<lambda>s. Some (projr (parseSchnorPubKeyFromHex ext s))) xs
                 @ drop (i + length xs) arr)"
  using assms
proof (induction xs arbitrary: i arr)
  case Nil
  then show ?case by simp
next
  case (Cons s rest)
  from Cons.prems(1) obtain k where k: "parseSchnorPubKeyFromHex ext s = Inr k"
    by auto
  have i: "i < length arr"
    using Cons.prems(2) by simp
  have rest: "\<forall>s\<in>set rest. \<exists>k. parseSchnorPubKeyFromHex ext s = Inr k"
    using Cons.prems(1) by simp
  have len: "Suc i + length rest \<le> length (arr[i := Some k])"
    using Cons.prems(2) by simp
  have tk: "take (Suc i) (arr[i := Some k]) = take i arr @ [Some k]"
    using i by (simp add: take_Suc_conv_app_nth)
  have dr: "drop (Suc i + length rest) (arr[i := Some k]) = drop (Suc i + length rest) arr"
    by (simp add: drop_update_cancel)
  show ?case
    unfolding loop_step k
    using Cons.IH [OF rest len] tk dr by (simp add: k)
qed

lemma loop_first_invalid:
  assumes "j < length xs"
    and "parseSchnorPubKeyFromHex ext (xs ! j) = Inl e"
    and "\<forall>l<j. \<exists>k. parseSchnorPubKeyFromHex ext (xs ! l) = Inr k"
  shows "parseCovenantKeysLoop ext i xs arr = Inl e"
  using assms
proof (induction xs arbitrary: i arr j)
  case Nil
  then show ?case by simp
next
  case (Cons s rest)
  show ?case
  proof (cases j)
    case 0
    then show ?thesis
      using Cons.prems(2) by (simp add: loop_step del: parseCovenantKeysLoop.simps)
  next
    case (Suc j')
    from Cons.prems(3) Suc obtain k where k: "parseSchnorPubKeyFromHex ext s = Inr k"
      by fastforce
    have a: "j' < length rest" using Cons.prems(1) Suc by simp
    have b: "parseSchnorPubKeyFromHex ext (rest ! j') = Inl e"
      using Cons.prems(2) Suc by simp
    have c: "\<forall>l<j'. \<exists>k. parseSchnorPubKeyFromHex ext (rest ! l) = Inr k"
    proof (intro allI impI)
      fix l assume "l < j'"
      then have "Suc l < j" using Suc by simp
      then show "\<exists>k. parseSchnorPubKeyFromHex ext (rest ! l) = Inr k"
        using Cons.prems(3) by fastforce
    qed
    show ?thesis
      unfolding loop_step k using Cons.IH [OF a b c] by simp
  qed
qed

subsection \<open>The example instance\<close>

lemma example_ext_sel [simp]:
  "schnorr_ParsePubKey example_ext b = (if length b \<noteq> 32 then Inl (Errorf ''bad pubkey byte string size'') else Inr b)"
  "NewBTCTxFromHex example_ext = hex_DecodeString"
  "BuildV0IdentifiableStakingOutputsAndTx example_ext m s f c q t a n = Inr m"
  "ParseV0StakingTx example_ext tx m c q n = Inr ()"
  "SerializeBtcTransaction example_ext tx = Inr tx"
  by (simp_all add: example_ext_def)

lemma example_keys [simp]:
  "parseSchnorPubKeyFromHex example_ext key_a = Inr bytes_a"
  "parseSchnorPubKeyFromHex example_ext key_b = Inr bytes_b"
  "parseSchnorPubKeyFromHex example_ext key_c = Inr bytes_c"
  "parseSchnorPubKeyFromHex example_ext compressed_key_a = Inl (Errorf ''bad pubkey byte string size'')"
  "parseSchnorPubKeyFromHex example_ext ''zz'' = Inl (InvalidByteError CHR ''z'')"
  by (simp_all add: parseSchnorPubKeyFromHex_def hex_key_a hex_key_b hex_key_c hex_compressed_key_a hex_zz)

lemma example_covenant [simp]:
  "parseCovenantKeysFromSlice example_ext [key_a, key_b, key_c] = Inr [Some bytes_a, Some bytes_b, Some bytes_c]"
  "parseCovenantKeysFromSlice example_ext [key_a, key_b, key_a] = Inr [Some bytes_a, Some bytes_b, Some bytes_a]"
  "parseCovenantKeysFromSlice example_ext [key_a] = Inr [Some bytes_a]"
  "parseCovenantKeysFromSlice example_ext [key_a, ''zz'', compressed_key_a] = Inl (InvalidByteError CHR ''z'')"
  by (simp_all add: parseCovenantKeysFromSlice_def loop_step del: parseCovenantKeysLoop.simps(2))

lemma example_magic [simp]:
  "parseMagicBytesFromHex ''01020304'' = Inr [1, 2, 3, 4]"
  "parseMagicBytesFromHex ''zz'' = Inl (InvalidByteError CHR ''z'')"
  by (simp_all add: parseMagicBytesFromHex_def hex_01020304 hex_zz MagicBytesLen_def)

lemma example_networks [simp]:
  "GetBtcNetworkParams ''regtest'' = Inr RegressionNetParams"
  "GetBtcNetworkParams ''foonet'' = Inl (Errorf ''unknown network foonet'')"
  by (simp_all add: GetBtcNetworkParams_def)

lemma example_encode [simp]: "hex_EncodeToString [1, 2, 3, 4] = ''01020304''"
  by (simp add: hex_EncodeToString_def hextable_def)

lemma example_create:
  "createPhase1StakingTransaction example_ext
     (example_ctx ''regtest'' key_a ''01020304'' [key_a, key_b, key_c] 10000 100 q)
   = (Inr \<lparr>StakingTxHex = ''01020304''\<rparr>,
      [BuildCall [1, 2, 3, 4] bytes_a bytes_b [Some bytes_a, Some bytes_b, Some bytes_c]
         (ucast q) 100 10000 RegressionNetParams])"
  by (simp add: createPhase1StakingTransaction_def parseSchnorPubKeyFromCliCtx_def
      parseStakingAmountFromCliCtx_def parseStakingTimeBlocksFromCliCtx_def MaxUint16_def
      parseMagicBytesFromCliCtx_def parseCovenantKeysFromCliCtx_def
      MakeCreatePhase1StakingTxResponse_def Let_def)

lemma hex_example_tx: "hex_DecodeString example_tx_hex = Inr example_tx_bytes"
  by (simp add: hex_DecodeString_def fromHexChar_def example_tx_hex_def example_tx_bytes_def
      key_a_def bytes_a_def)

lemma example_check:
  "checkPhase1StakingTransaction example_ext
     (example_ctx ''regtest'' key_a ''01020304'' [key_a, key_b, key_c] 10000 100 q)
   = (Inr ''Provided transaction is valid staking transaction!'',
      [ParseCall example_tx_bytes [1, 2, 3, 4] [Some bytes_a, Some bytes_b, Some bytes_c]
         (ucast q) RegressionNetParams])"
  by (simp add: checkPhase1StakingTransaction_def hex_example_tx
      parseMagicBytesFromCliCtx_def parseCovenantKeysFromCliCtx_def Let_def)

subsection \<open>Order of the decoded keys\<close>

text \<open>
  C8. \<open>parseCovenantKeysFromSlice\<close> decodes each element by itself, as
  \<open>parseSchnorPubKeyFromHex\<close> does. When every element decodes, the result has the length
  of the input and holds, at each position, the key of the element at that position
  (an element that occurs twice gives its key twice). When an element does not decode and
  all elements before it do, the result is the error of that element and no keys.
\<close>

theorem parseCovenantKeysFromSlice_order:
  "((\<forall>s\<in>set xs. \<exists>k. parseSchnorPubKeyFromHex ext s = Inr k) \<longrightarrow>
      (\<exists>ks. parseCovenantKeysFromSlice ext xs = Inr (map Some ks) \<and> length ks = length xs
         \<and> (\<forall>i<length xs. parseSchnorPubKeyFromHex ext (xs ! i) = Inr (ks ! i))))
   \<and> (\<forall>j e. j < length xs \<and> parseSchnorPubKeyFromHex ext (xs ! j) = Inl e
          \<and> (\<forall>l<j. \<exists>k. parseSchnorPubKeyFromHex ext (xs ! l) = Inr k) \<longrightarrow>
        parseCovenantKeysFromSlice ext xs = Inl e)"
proof (intro conjI impI allI)
  assume ok: "\<forall>s\<in>set xs. \<exists>k. parseSchnorPubKeyFromHex ext s = Inr k"
  define ks where "ks = map (\<lambda>s. projr (parseSchnorPubKeyFromHex ext s)) xs"
  have "parseCovenantKeysFromSlice ext xs = Inr (map Some ks)"
    unfolding parseCovenantKeysFromSlice_def ks_def
    using loop_all_valid [OF ok, of 0 "replicate (length xs) None"] by (simp add: comp_def)
  moreover have "length ks = length xs"
    by (simp add: ks_def)
  moreover have "\<forall>i<length xs. parseSchnorPubKeyFromHex ext (xs ! i) = Inr (ks ! i)"
  proof (intro allI impI)
    fix i assume i: "i < length xs"
    then obtain k where "parseSchnorPubKeyFromHex ext (xs ! i) = Inr k"
      using ok nth_mem by blast
    then show "parseSchnorPubKeyFromHex ext (xs ! i) = Inr (ks ! i)"
      using i by (simp add: ks_def)
  qed
  ultimately show "\<exists>ks. parseCovenantKeysFromSlice ext xs = Inr (map Some ks) \<and> length ks = length xs
         \<and> (\<forall>i<length xs. parseSchnorPubKeyFromHex ext (xs ! i) = Inr (ks ! i))"
    by blast
next
  fix j e
  assume "j < length xs \<and> parseSchnorPubKeyFromHex ext (xs ! j) = Inl e
          \<and> (\<forall>l<j. \<exists>k. parseSchnorPubKeyFromHex ext (xs ! l) = Inr k)"
  then show "parseCovenantKeysFromSlice ext xs = Inl e"
    unfolding parseCovenantKeysFromSlice_def
    using loop_first_invalid [of j xs ext e 0] by blast
qed

theorem parseCovenantKeysFromSlice_order_witness:
  "parseCovenantKeysFromSlice example_ext [key_a, key_b, key_a]
     = Inr [Some bytes_a, Some bytes_b, Some bytes_a]
   \<and> parseCovenantKeysFromSlice example_ext [key_a, ''zz'', compressed_key_a]
     = Inl (InvalidByteError CHR ''z'')"
  using parseCovenantKeysFromSlice_order [of "[key_a, key_b, key_a]" example_ext]
    parseCovenantKeysFromSlice_order [of "[key_a, ''zz'', compressed_key_a]" example_ext]
  by simp

section \<open>Public keys\<close>

lemma loop_member_invalid:
  assumes "s \<in> set xs" and "isl (parseSchnorPubKeyFromHex ext s)"
  shows "isl (parseCovenantKeysLoop ext i xs arr)"
  using assms
proof (induction xs arbitrary: i arr)
  case Nil
  then show ?case by simp
next
  case (Cons x rest)
  show ?case
  proof (cases "parseSchnorPubKeyFromHex ext x")
    case (Inl e)
    then show ?thesis
      by (simp add: loop_step del: parseCovenantKeysLoop.simps)
  next
    case (Inr k)
    then have "s \<noteq> x"
      using Cons.prems(2) by auto
    then have "s \<in> set rest"
      using Cons.prems(1) by simp
    then show ?thesis
      using Cons.IH [OF _ Cons.prems(2)] Inr
      by (simp add: loop_step del: parseCovenantKeysLoop.simps)
  qed
qed

lemma create_fails_no_call:
  "isl (parseSchnorPubKeyFromCliCtx ext ctx stakerPublicKeyFlag)
     \<or> isl (parseSchnorPubKeyFromCliCtx ext ctx finalityProviderKeyFlag)
     \<or> isl (parseCovenantKeysFromCliCtx ext ctx) \<Longrightarrow>
   isl (fst (createPhase1StakingTransaction ext ctx)) \<and> snd (createPhase1StakingTransaction ext ctx) = []"
  by (auto simp: createPhase1StakingTransaction_def Let_def split: sum.splits)

lemma check_fails_no_call:
  "isl (parseCovenantKeysFromCliCtx ext ctx) \<Longrightarrow>
   isl (fst (checkPhase1StakingTransaction ext ctx)) \<and> snd (checkPhase1StakingTransaction ext ctx) = []"
  by (auto simp: checkPhase1StakingTransaction_def Let_def split: sum.splits)

text \<open>
  C7. The staker key, the finality-provider key and every covenant key go through
  \<open>hex.DecodeString\<close> and then the x-only parser \<open>schnorr.ParsePubKey\<close>, and through
  nothing else. So a hexadecimal string whose bytes the x-only parser refuses (as it does
  the 33 bytes of a compressed key) fails to parse with the parser's error as a staker or
  finality-provider key, makes the covenant list fail when it is one of its elements, and
  makes the commands fail before any call to the staking library.
\<close>

theorem x_only_rejection_fails_parse:
  assumes "hex_DecodeString s = Inr bs" and "schnorr_ParsePubKey ext bs = Inl e"
  shows "parseSchnorPubKeyFromHex ext s = Inl e
       \<and> (String ctx stakerPublicKeyFlag = s \<longrightarrow>
            parseSchnorPubKeyFromCliCtx ext ctx stakerPublicKeyFlag = Inl e)
       \<and> (String ctx finalityProviderKeyFlag = s \<longrightarrow>
            parseSchnorPubKeyFromCliCtx ext ctx finalityProviderKeyFlag = Inl e)
       \<and> (s \<in> set xs \<longrightarrow> isl (parseCovenantKeysFromSlice ext xs))
       \<and> (String ctx stakerPublicKeyFlag = s \<or> String ctx finalityProviderKeyFlag = s
            \<or> s \<in> set (StringSlice ctx covenantMembersPksFlag) \<longrightarrow>
            isl (fst (createPhase1StakingTransaction ext ctx))
            \<and> snd (createPhase1StakingTransaction ext ctx) = [])
       \<and> (s \<in> set (StringSlice ctx covenantMembersPksFlag) \<longrightarrow>
            isl (fst (checkPhase1StakingTransaction ext ctx))
            \<and> snd (checkPhase1StakingTransaction ext ctx) = [])"
proof -
  have one: "parseSchnorPubKeyFromHex ext s = Inl e"
    using assms by (simp add: parseSchnorPubKeyFromHex_def)
  have cov: "isl (parseCovenantKeysFromSlice ext ys)" if "s \<in> set ys" for ys
    unfolding parseCovenantKeysFromSlice_def
    using loop_member_invalid [OF that, of ext] one by simp
  have covctx: "isl (parseCovenantKeysFromCliCtx ext ctx)"
    if "s \<in> set (StringSlice ctx covenantMembersPksFlag)"
    using cov [OF that] by (simp add: parseCovenantKeysFromCliCtx_def)
  show ?thesis
    using one cov covctx create_fails_no_call [of ext ctx] check_fails_no_call [of ext ctx]
    by (auto simp: parseSchnorPubKeyFromCliCtx_def)
qed

theorem x_only_rejection_fails_parse_witness:
  "parseSchnorPubKeyFromHex example_ext compressed_key_a = Inl (Errorf ''bad pubkey byte string size'')
   \<and> isl (parseCovenantKeysFromSlice example_ext [key_a, compressed_key_a])
   \<and> isl (fst (createPhase1StakingTransaction example_ext
        (example_ctx ''regtest'' compressed_key_a ''01020304'' [key_a] 10000 100 1)))
   \<and> isl (fst (checkPhase1StakingTransaction example_ext
        (example_ctx ''regtest'' key_a ''01020304'' [key_a, compressed_key_a] 10000 100 1)))"
proof -
  have rej: "schnorr_ParsePubKey example_ext (2 # bytes_a) = Inl (Errorf ''bad pubkey byte string size'')"
    by simp
  show ?thesis
    using x_only_rejection_fails_parse [OF hex_compressed_key_a rej,
        of "example_ctx ''regtest'' compressed_key_a ''01020304'' [key_a] 10000 100 1"
           "[key_a, compressed_key_a]"]
      x_only_rejection_fails_parse [OF hex_compressed_key_a rej,
        of "example_ctx ''regtest'' key_a ''01020304'' [key_a, compressed_key_a] 10000 100 1"
           "[key_a, compressed_key_a]"]
    by simp
qed

section \<open>Staking amount\<close>

lemma amount_low:
  "sint (Int64 ctx StakingAmountFlag) \<le> 0 \<Longrightarrow>
   parseStakingAmountFromCliCtx ctx = Inl (Errorf ''staking amount should be greater than 0'')"
  by (simp add: parseStakingAmountFromCliCtx_def Let_def)

lemma amount_ok:
  "0 < sint (Int64 ctx StakingAmountFlag) \<Longrightarrow>
   parseStakingAmountFromCliCtx ctx = Inr (Int64 ctx StakingAmountFlag)"
  by (simp add: parseStakingAmountFromCliCtx_def Let_def)

lemma create_amount_low_no_call:
  assumes "parseStakingAmountFromCliCtx ctx = Inl e"
  shows "snd (createPhase1StakingTransaction ext ctx) = [] \<and> isl (fst (createPhase1StakingTransaction ext ctx))"
  using assms
  by (simp add: createPhase1StakingTransaction_def Let_def split: sum.splits)

lemma create_amount_low_error:
  assumes "GetBtcNetworkParams (String ctx networkNameFlag) = Inr p"
    and "parseSchnorPubKeyFromCliCtx ext ctx stakerPublicKeyFlag = Inr k1"
    and "parseSchnorPubKeyFromCliCtx ext ctx finalityProviderKeyFlag = Inr k2"
    and "parseStakingAmountFromCliCtx ctx = Inl e"
  shows "createPhase1StakingTransaction ext ctx = (Inl e, [])"
  using assms
  by (simp add: createPhase1StakingTransaction_def Let_def)

text \<open>
  C5. A staking amount that is zero or negative makes \<open>parseStakingAmountFromCliCtx\<close>
  fail with the message "staking amount should be greater than 0"; then
  \<open>createPhase1StakingTransaction\<close> fails without any call to the staking library, and
  with that message when the network and the two keys before the amount are valid. A
  positive amount is returned as it is.
\<close>

theorem parseStakingAmount_positive:
  "(sint (Int64 ctx StakingAmountFlag) \<le> 0 \<longrightarrow>
      parseStakingAmountFromCliCtx ctx = Inl (Errorf ''staking amount should be greater than 0'')
      \<and> snd (createPhase1StakingTransaction ext ctx) = []
      \<and> isl (fst (createPhase1StakingTransaction ext ctx))
      \<and> ((\<exists>p k1 k2. GetBtcNetworkParams (String ctx networkNameFlag) = Inr p
             \<and> parseSchnorPubKeyFromCliCtx ext ctx stakerPublicKeyFlag = Inr k1
             \<and> parseSchnorPubKeyFromCliCtx ext ctx finalityProviderKeyFlag = Inr k2) \<longrightarrow>
           fst (createPhase1StakingTransaction ext ctx) =
             Inl (Errorf ''staking amount should be greater than 0'')))
   \<and> (0 < sint (Int64 ctx StakingAmountFlag) \<longrightarrow>
        parseStakingAmountFromCliCtx ctx = Inr (Int64 ctx StakingAmountFlag))"
proof (intro conjI impI)
  assume low: "sint (Int64 ctx StakingAmountFlag) \<le> 0"
  show a: "parseStakingAmountFromCliCtx ctx = Inl (Errorf ''staking amount should be greater than 0'')"
    using low by (rule amount_low)
  show "snd (createPhase1StakingTransaction ext ctx) = []"
    using create_amount_low_no_call [OF a, of ext] by simp
  show "isl (fst (createPhase1StakingTransaction ext ctx))"
    using create_amount_low_no_call [OF a, of ext] by simp
  assume "\<exists>p k1 k2. GetBtcNetworkParams (String ctx networkNameFlag) = Inr p
             \<and> parseSchnorPubKeyFromCliCtx ext ctx stakerPublicKeyFlag = Inr k1
             \<and> parseSchnorPubKeyFromCliCtx ext ctx finalityProviderKeyFlag = Inr k2"
  then show "fst (createPhase1StakingTransaction ext ctx) =
             Inl (Errorf ''staking amount should be greater than 0'')"
    using create_amount_low_error [where ext = ext and ctx = ctx, OF _ _ _ a] by fastforce
next
  assume "0 < sint (Int64 ctx StakingAmountFlag)"
  then show "parseStakingAmountFromCliCtx ctx = Inr (Int64 ctx StakingAmountFlag)"
    by (rule amount_ok)
qed

theorem parseStakingAmount_positive_witness:
  "parseStakingAmountFromCliCtx (example_ctx ''regtest'' key_a ''01020304'' [key_a, key_b, key_c] 0 100 2)
     = Inl (Errorf ''staking amount should be greater than 0'')
   \<and> createPhase1StakingTransaction example_ext
        (example_ctx ''regtest'' key_a ''01020304'' [key_a, key_b, key_c] 0 100 2)
     = (Inl (Errorf ''staking amount should be greater than 0''), [])
   \<and> createPhase1StakingTransaction example_ext
        (example_ctx ''regtest'' key_a ''01020304'' [key_a, key_b, key_c] (- 5) 100 2)
     = (Inl (Errorf ''staking amount should be greater than 0''), [])
   \<and> parseStakingAmountFromCliCtx (example_ctx ''regtest'' key_a ''01020304'' [key_a, key_b, key_c] 10000 100 2)
     = Inr 10000"
  using parseStakingAmount_positive [of "example_ctx ''regtest'' key_a ''01020304'' [key_a, key_b, key_c] 0 100 2" example_ext]
    parseStakingAmount_positive [of "example_ctx ''regtest'' key_a ''01020304'' [key_a, key_b, key_c] (- 5) 100 2" example_ext]
    parseStakingAmount_positive [of "example_ctx ''regtest'' key_a ''01020304'' [key_a, key_b, key_c] 10000 100 2" example_ext]
  by (simp add: parseSchnorPubKeyFromCliCtx_def prod_eq_iff)

section \<open>Covenant quorum\<close>

lemma ucast_cong_mod:
  fixes v v' :: "64 word"
  assumes "unat v mod 2 ^ 32 = unat v' mod 2 ^ 32"
  shows "(ucast v :: 32 word) = ucast v'"
proof -
  have "unat (ucast v :: 32 word) = unat (ucast v' :: 32 word)"
    using assms by (simp add: unsigned_ucast_eq take_bit_eq_mod)
  then show ?thesis
    by (rule word_unat_eq_iff [THEN iffD2])
qed

lemma unat_ucast_32: "unat (ucast (v :: 64 word) :: 32 word) = unat v mod 2 ^ 32"
  by (simp add: unsigned_ucast_eq take_bit_eq_mod)

lemma make_calls:
  "snd (MakeCreatePhase1StakingTxResponse ext m s f c q t a n) = [BuildCall m s f c q t a n]"
  by (simp add: MakeCreatePhase1StakingTxResponse_def Let_def split: sum.splits)

lemma make_calls_eq:
  "MakeCreatePhase1StakingTxResponse ext m s f c q t a n = (r, calls) \<Longrightarrow>
   calls = [BuildCall m s f c q t a n]"
  using make_calls [of ext m s f c q t a n] by simp

lemma create_calls_quorum:
  "c \<in> set (snd (createPhase1StakingTransaction ext ctx)) \<Longrightarrow>
   libcall_quorum c = ucast (Uint64 ctx covenantQuorumFlag)"
  by (auto simp: createPhase1StakingTransaction_def Let_def split: sum.splits prod.splits
      dest!: make_calls_eq)

lemma check_calls_quorum:
  "c \<in> set (snd (checkPhase1StakingTransaction ext ctx)) \<Longrightarrow>
   libcall_quorum c = ucast (Uint64 ctx covenantQuorumFlag)"
  by (auto simp: checkPhase1StakingTransaction_def Let_def split: sum.splits)

lemma create_quorum_only_ucast:
  assumes "(ucast v :: 32 word) = ucast v'"
  shows "createPhase1StakingTransaction ext (ctx\<lparr>Uint64 := (Uint64 ctx)(covenantQuorumFlag := v)\<rparr>)
       = createPhase1StakingTransaction ext (ctx\<lparr>Uint64 := (Uint64 ctx)(covenantQuorumFlag := v')\<rparr>)"
  using assms
  by (simp add: createPhase1StakingTransaction_def Let_def parseSchnorPubKeyFromCliCtx_def
      parseStakingAmountFromCliCtx_def parseStakingTimeBlocksFromCliCtx_def
      parseMagicBytesFromCliCtx_def parseCovenantKeysFromCliCtx_def cong: sum.case_cong)

lemma check_quorum_only_ucast:
  assumes "(ucast v :: 32 word) = ucast v'"
  shows "checkPhase1StakingTransaction ext (ctx\<lparr>Uint64 := (Uint64 ctx)(covenantQuorumFlag := v)\<rparr>)
       = checkPhase1StakingTransaction ext (ctx\<lparr>Uint64 := (Uint64 ctx)(covenantQuorumFlag := v')\<rparr>)"
  using assms
  by (simp add: checkPhase1StakingTransaction_def Let_def
      parseMagicBytesFromCliCtx_def parseCovenantKeysFromCliCtx_def cong: sum.case_cong)

lemma create_hands_quorum:
  assumes "GetBtcNetworkParams (String ctx networkNameFlag) = Inr p"
    and "parseSchnorPubKeyFromCliCtx ext ctx stakerPublicKeyFlag = Inr k1"
    and "parseSchnorPubKeyFromCliCtx ext ctx finalityProviderKeyFlag = Inr k2"
    and "parseStakingAmountFromCliCtx ctx = Inr a"
    and "parseStakingTimeBlocksFromCliCtx ctx = Inr t"
    and "parseMagicBytesFromCliCtx ctx = Inr m"
    and "parseCovenantKeysFromCliCtx ext ctx = Inr c"
  shows "createPhase1StakingTransaction ext ctx =
           ((case BuildV0IdentifiableStakingOutputsAndTx ext m k1 k2 c
                   (ucast (Uint64 ctx covenantQuorumFlag)) t a p of
               Inl err \<Rightarrow> Inl err
             | Inr tx \<Rightarrow>
                 (case SerializeBtcTransaction ext tx of
                    Inl err \<Rightarrow> Inl err
                  | Inr serializedTx \<Rightarrow> Inr \<lparr>StakingTxHex = hex_EncodeToString serializedTx\<rparr>)),
            [BuildCall m k1 k2 c (ucast (Uint64 ctx covenantQuorumFlag)) t a p])"
  using assms
  by (simp add: createPhase1StakingTransaction_def MakeCreatePhase1StakingTxResponse_def Let_def
      split: sum.splits)

lemma check_hands_quorum:
  assumes "GetBtcNetworkParams (String ctx networkNameFlag) = Inr p"
    and "NewBTCTxFromHex ext (String ctx stakingTransactionFlag) = Inr tx"
    and "parseMagicBytesFromCliCtx ctx = Inr m"
    and "parseCovenantKeysFromCliCtx ext ctx = Inr c"
  shows "checkPhase1StakingTransaction ext ctx =
           ((case ParseV0StakingTx ext tx m c (ucast (Uint64 ctx covenantQuorumFlag)) p of
               Inl err \<Rightarrow> Inl err
             | Inr u \<Rightarrow> Inr ''Provided transaction is valid staking transaction!''),
            [ParseCall tx m c (ucast (Uint64 ctx covenantQuorumFlag)) p])"
  using assms
  by (simp add: checkPhase1StakingTransaction_def Let_def split: sum.splits)

lemma probe_ext_sel [simp]:
  "schnorr_ParsePubKey probe_ext b = schnorr_ParsePubKey example_ext b"
  "NewBTCTxFromHex probe_ext = hex_DecodeString"
  "BuildV0IdentifiableStakingOutputsAndTx probe_ext m s f c q t a n =
     Inl (Errorf (''quorum '' @ fmt_d (uint q)))"
  "ParseV0StakingTx probe_ext tx m c q n = Inl (Errorf (''quorum '' @ fmt_d (uint q)))"
  by (simp_all add: probe_ext_def example_ext_def)

lemma probe_key [simp]:
  "parseSchnorPubKeyFromHex probe_ext k = parseSchnorPubKeyFromHex example_ext k"
  by (simp add: parseSchnorPubKeyFromHex_def cong: sum.case_cong)

lemma probe_covenant [simp]:
  "parseCovenantKeysFromSlice probe_ext [key_a, key_b, key_c] =
     Inr [Some bytes_a, Some bytes_b, Some bytes_c]"
  by (simp add: parseCovenantKeysFromSlice_def loop_step del: parseCovenantKeysLoop.simps(2))

lemma fmt_d_2: "fmt_d 2 = ''2''"
  by (simp add: fmt_d_def fmt_nat.simps digit_char_def)

lemma ucast_example_quorum: "(ucast (4294967298 :: 64 word) :: 32 word) = 2"
  by simp

text \<open>
  C10. The covenant quorum is read as an unsigned 64-bit integer and converted to 32 bits,
  so its value becomes the flag's value modulo \<open>2 ^ 32\<close>. When the checks before the call
  pass, \<open>createPhase1StakingTransaction\<close> hands exactly that value to
  \<open>BuildV0IdentifiableStakingOutputsAndTx\<close> and \<open>checkPhase1StakingTransaction\<close> hands
  exactly that value to \<open>ParseV0StakingTx\<close>, whatever the library is; the command's result
  is the library's answer to it, and the one call made carries it. No call of either
  command carries another quorum. No value is refused for its size: two flag values that
  agree modulo \<open>2 ^ 32\<close> give the same result and the same library calls.
\<close>

theorem covenantQuorum_truncated:
  "unat (ucast (Uint64 ctx covenantQuorumFlag) :: 32 word) = unat (Uint64 ctx covenantQuorumFlag) mod 2 ^ 32
   \<and> (GetBtcNetworkParams (String ctx networkNameFlag) = Inr p
        \<and> parseSchnorPubKeyFromCliCtx ext ctx stakerPublicKeyFlag = Inr k1
        \<and> parseSchnorPubKeyFromCliCtx ext ctx finalityProviderKeyFlag = Inr k2
        \<and> parseStakingAmountFromCliCtx ctx = Inr a
        \<and> parseStakingTimeBlocksFromCliCtx ctx = Inr t
        \<and> parseMagicBytesFromCliCtx ctx = Inr m
        \<and> parseCovenantKeysFromCliCtx ext ctx = Inr c \<longrightarrow>
      createPhase1StakingTransaction ext ctx =
        ((case BuildV0IdentifiableStakingOutputsAndTx ext m k1 k2 c
                (ucast (Uint64 ctx covenantQuorumFlag)) t a p of
            Inl err \<Rightarrow> Inl err
          | Inr tx \<Rightarrow>
              (case SerializeBtcTransaction ext tx of
                 Inl err \<Rightarrow> Inl err
               | Inr serializedTx \<Rightarrow> Inr \<lparr>StakingTxHex = hex_EncodeToString serializedTx\<rparr>)),
         [BuildCall m k1 k2 c (ucast (Uint64 ctx covenantQuorumFlag)) t a p]))
   \<and> (GetBtcNetworkParams (String ctx networkNameFlag) = Inr p
        \<and> NewBTCTxFromHex ext (String ctx stakingTransactionFlag) = Inr stx
        \<and> parseMagicBytesFromCliCtx ctx = Inr m
        \<and> parseCovenantKeysFromCliCtx ext ctx = Inr c \<longrightarrow>
      checkPhase1StakingTransaction ext ctx =
        ((case ParseV0StakingTx ext stx m c (ucast (Uint64 ctx covenantQuorumFlag)) p of
            Inl err \<Rightarrow> Inl err
          | Inr u \<Rightarrow> Inr ''Provided transaction is valid staking transaction!''),
         [ParseCall stx m c (ucast (Uint64 ctx covenantQuorumFlag)) p]))
   \<and> (\<forall>c \<in> set (snd (createPhase1StakingTransaction ext ctx)).
         libcall_quorum c = ucast (Uint64 ctx covenantQuorumFlag))
   \<and> (\<forall>c \<in> set (snd (checkPhase1StakingTransaction ext ctx)).
         libcall_quorum c = ucast (Uint64 ctx covenantQuorumFlag))
   \<and> (unat v mod 2 ^ 32 = unat v' mod 2 ^ 32 \<longrightarrow>
         createPhase1StakingTransaction ext (ctx\<lparr>Uint64 := (Uint64 ctx)(covenantQuorumFlag := v)\<rparr>)
           = createPhase1StakingTransaction ext (ctx\<lparr>Uint64 := (Uint64 ctx)(covenantQuorumFlag := v')\<rparr>)
       \<and> checkPhase1StakingTransaction ext (ctx\<lparr>Uint64 := (Uint64 ctx)(covenantQuorumFlag := v)\<rparr>)
           = checkPhase1StakingTransaction ext (ctx\<lparr>Uint64 := (Uint64 ctx)(covenantQuorumFlag := v')\<rparr>))"
  using unat_ucast_32 [of "Uint64 ctx covenantQuorumFlag"]
    create_hands_quorum [of ctx p ext k1 k2 a t m c]
    check_hands_quorum [of ctx p ext stx m c]
    create_calls_quorum [of _ ext ctx] check_calls_quorum [of _ ext ctx]
    create_quorum_only_ucast [OF ucast_cong_mod, of v v' ext ctx]
    check_quorum_only_ucast [OF ucast_cong_mod, of v v' ext ctx]
  by blast

theorem covenantQuorum_truncated_witness:
  "createPhase1StakingTransaction example_ext
        (example_ctx ''regtest'' key_a ''01020304'' [key_a, key_b, key_c] 10000 100 4294967298)
     = (Inr \<lparr>StakingTxHex = ''01020304''\<rparr>,
        [BuildCall [1, 2, 3, 4] bytes_a bytes_b [Some bytes_a, Some bytes_b, Some bytes_c]
           2 100 10000 RegressionNetParams])
   \<and> checkPhase1StakingTransaction example_ext
        (example_ctx ''regtest'' key_a ''01020304'' [key_a, key_b, key_c] 10000 100 4294967298)
     = (Inr ''Provided transaction is valid staking transaction!'',
        [ParseCall example_tx_bytes [1, 2, 3, 4] [Some bytes_a, Some bytes_b, Some bytes_c]
           2 RegressionNetParams])
   \<and> createPhase1StakingTransaction probe_ext
        (example_ctx ''regtest'' key_a ''01020304'' [key_a, key_b, key_c] 10000 100 4294967298)
     = (Inl (Errorf ''quorum 2''),
        [BuildCall [1, 2, 3, 4] bytes_a bytes_b [Some bytes_a, Some bytes_b, Some bytes_c]
           2 100 10000 RegressionNetParams])
   \<and> checkPhase1StakingTransaction probe_ext
        (example_ctx ''regtest'' key_a ''01020304'' [key_a, key_b, key_c] 10000 100 4294967298)
     = (Inl (Errorf ''quorum 2''),
        [ParseCall example_tx_bytes [1, 2, 3, 4] [Some bytes_a, Some bytes_b, Some bytes_c]
           2 RegressionNetParams])
   \<and> createPhase1StakingTransaction example_ext
        (example_ctx ''regtest'' key_a ''01020304'' [key_a, key_b, key_c] 10000 100 4294967298)
     = createPhase1StakingTransaction example_ext
        (example_ctx ''regtest'' key_a ''01020304'' [key_a, key_b, key_c] 10000 100 2)"
proof -
  let ?ctx = "example_ctx ''regtest'' key_a ''01020304'' [key_a, key_b, key_c] 10000 100 4294967298"
  have ok: "GetBtcNetworkParams (String ?ctx networkNameFlag) = Inr RegressionNetParams
        \<and> parseSchnorPubKeyFromCliCtx example_ext ?ctx stakerPublicKeyFlag = Inr bytes_a
        \<and> parseSchnorPubKeyFromCliCtx example_ext ?ctx finalityProviderKeyFlag = Inr bytes_b
        \<and> parseStakingAmountFromCliCtx ?ctx = Inr 10000
        \<and> parseStakingTimeBlocksFromCliCtx ?ctx = Inr 100
        \<and> parseMagicBytesFromCliCtx ?ctx = Inr [1, 2, 3, 4]
        \<and> parseCovenantKeysFromCliCtx example_ext ?ctx = Inr [Some bytes_a, Some bytes_b, Some bytes_c]
        \<and> NewBTCTxFromHex example_ext (String ?ctx stakingTransactionFlag) = Inr example_tx_bytes"
    by (simp add: parseSchnorPubKeyFromCliCtx_def parseStakingAmountFromCliCtx_def
        parseStakingTimeBlocksFromCliCtx_def MaxUint16_def parseMagicBytesFromCliCtx_def
        parseCovenantKeysFromCliCtx_def hex_example_tx Let_def)
  have ok': "parseSchnorPubKeyFromCliCtx probe_ext ?ctx stakerPublicKeyFlag = Inr bytes_a
        \<and> parseSchnorPubKeyFromCliCtx probe_ext ?ctx finalityProviderKeyFlag = Inr bytes_b
        \<and> parseCovenantKeysFromCliCtx probe_ext ?ctx = Inr [Some bytes_a, Some bytes_b, Some bytes_c]
        \<and> NewBTCTxFromHex probe_ext (String ?ctx stakingTransactionFlag) = Inr example_tx_bytes"
    by (simp add: parseSchnorPubKeyFromCliCtx_def parseCovenantKeysFromCliCtx_def hex_example_tx)
  have cong: "unat (4294967298 :: 64 word) mod 2 ^ 32 = unat (2 :: 64 word) mod 2 ^ 32"
    by simp
  note ex = covenantQuorum_truncated
      [of ?ctx RegressionNetParams example_ext bytes_a bytes_b 10000 100 "[1, 2, 3, 4]"
        "[Some bytes_a, Some bytes_b, Some bytes_c]" example_tx_bytes 4294967298 2]
  note pr = covenantQuorum_truncated
      [of ?ctx RegressionNetParams probe_ext bytes_a bytes_b 10000 100 "[1, 2, 3, 4]"
        "[Some bytes_a, Some bytes_b, Some bytes_c]" example_tx_bytes 4294967298 2]
  have c1: "createPhase1StakingTransaction example_ext ?ctx
     = (Inr \<lparr>StakingTxHex = ''01020304''\<rparr>,
        [BuildCall [1, 2, 3, 4] bytes_a bytes_b [Some bytes_a, Some bytes_b, Some bytes_c]
           2 100 10000 RegressionNetParams])"
    using ex ok by (simp add: ucast_example_quorum)
  have c2: "checkPhase1StakingTransaction example_ext ?ctx
     = (Inr ''Provided transaction is valid staking transaction!'',
        [ParseCall example_tx_bytes [1, 2, 3, 4] [Some bytes_a, Some bytes_b, Some bytes_c]
           2 RegressionNetParams])"
    using ex ok by (simp add: ucast_example_quorum)
  have c3: "createPhase1StakingTransaction probe_ext ?ctx
     = (Inl (Errorf ''quorum 2''),
        [BuildCall [1, 2, 3, 4] bytes_a bytes_b [Some bytes_a, Some bytes_b, Some bytes_c]
           2 100 10000 RegressionNetParams])"
    using pr ok ok' by (simp add: ucast_example_quorum fmt_d_2)
  have c4: "checkPhase1StakingTransaction probe_ext ?ctx
     = (Inl (Errorf ''quorum 2''),
        [ParseCall example_tx_bytes [1, 2, 3, 4] [Some bytes_a, Some bytes_b, Some bytes_c]
           2 RegressionNetParams])"
    using pr ok ok' by (simp add: ucast_example_quorum fmt_d_2)
  have c5: "createPhase1StakingTransaction example_ext ?ctx
     = createPhase1StakingTransaction example_ext
        (example_ctx ''regtest'' key_a ''01020304'' [key_a, key_b, key_c] 10000 100 2)"
    unfolding c1 by (simp add: example_create)
  show ?thesis
    using c1 c2 c3 c4 c5 by simp
qed

section \<open>The order of the checks\<close>

lemma create_order:
  "(GetBtcNetworkParams (String ctx networkNameFlag) = Inl e \<longrightarrow>
      createPhase1StakingTransaction ext ctx = (Inl e, []))
   \<and> (GetBtcNetworkParams (String ctx networkNameFlag) = Inr p \<longrightarrow>
     (parseSchnorPubKeyFromCliCtx ext ctx stakerPublicKeyFlag = Inl e \<longrightarrow>
        createPhase1StakingTransaction ext ctx = (Inl e, []))
     \<and> (parseSchnorPubKeyFromCliCtx ext ctx stakerPublicKeyFlag = Inr k1 \<longrightarrow>
       (parseSchnorPubKeyFromCliCtx ext ctx finalityProviderKeyFlag = Inl e \<longrightarrow>
          createPhase1StakingTransaction ext ctx = (Inl e, []))
       \<and> (parseSchnorPubKeyFromCliCtx ext ctx finalityProviderKeyFlag = Inr k2 \<longrightarrow>
         (parseStakingAmountFromCliCtx ctx = Inl e \<longrightarrow>
            createPhase1StakingTransaction ext ctx = (Inl e, []))
         \<and> (parseStakingAmountFromCliCtx ctx = Inr a \<longrightarrow>
           (parseStakingTimeBlocksFromCliCtx ctx = Inl e \<longrightarrow>
              createPhase1StakingTransaction ext ctx = (Inl e, []))
           \<and> (parseStakingTimeBlocksFromCliCtx ctx = Inr t \<longrightarrow>
             (parseMagicBytesFromCliCtx ctx = Inl e \<longrightarrow>
                createPhase1StakingTransaction ext ctx = (Inl e, []))
             \<and> (parseMagicBytesFromCliCtx ctx = Inr m \<longrightarrow>
               (parseCovenantKeysFromCliCtx ext ctx = Inl e \<longrightarrow>
                  createPhase1StakingTransaction ext ctx = (Inl e, []))
               \<and> (parseCovenantKeysFromCliCtx ext ctx = Inr c \<longrightarrow>
                  createPhase1StakingTransaction ext ctx =
                    MakeCreatePhase1StakingTxResponse ext m k1 k2 c
                      (ucast (Uint64 ctx covenantQuorumFlag)) t a p)))))))"
  by (simp add: createPhase1StakingTransaction_def Let_def split: sum.splits prod.splits)

lemma check_order:
  "(GetBtcNetworkParams (String ctx networkNameFlag) = Inl e \<longrightarrow>
      checkPhase1StakingTransaction ext ctx = (Inl e, []))
   \<and> (GetBtcNetworkParams (String ctx networkNameFlag) = Inr p \<longrightarrow>
     (NewBTCTxFromHex ext (String ctx stakingTransactionFlag) = Inl e \<longrightarrow>
        checkPhase1StakingTransaction ext ctx = (Inl e, []))
     \<and> (NewBTCTxFromHex ext (String ctx stakingTransactionFlag) = Inr tx \<longrightarrow>
       (parseMagicBytesFromCliCtx ctx = Inl e \<longrightarrow>
          checkPhase1StakingTransaction ext ctx = (Inl e, []))
       \<and> (parseMagicBytesFromCliCtx ctx = Inr m \<longrightarrow>
         (parseCovenantKeysFromCliCtx ext ctx = Inl e \<longrightarrow>
            checkPhase1StakingTransaction ext ctx = (Inl e, [])))))"
  by (simp add: checkPhase1StakingTransaction_def Let_def split: sum.splits prod.splits)

text \<open>
  C2, as the code has it. Each command returns the error of the first check that fails, in
  the order in which it makes its checks, and calls the staking library after none of
  them. \<open>createPhase1StakingTransaction\<close> checks the network name, the staker key, the
  finality-provider key, the staking amount, the staking time, the magic bytes and the
  covenant keys; \<open>checkPhase1StakingTransaction\<close> checks the network name, the
  transaction, the magic bytes and the covenant keys. So a parse error is returned when
  the network name is known and every input checked before the malformed one is valid.
\<close>

theorem commands_report_first_failing_check:
  "(GetBtcNetworkParams (String ctx networkNameFlag) = Inl e \<longrightarrow>
      createPhase1StakingTransaction ext ctx = (Inl e, [])
      \<and> checkPhase1StakingTransaction ext ctx = (Inl e, []))
   \<and> (GetBtcNetworkParams (String ctx networkNameFlag) = Inr p \<longrightarrow>
     (parseSchnorPubKeyFromCliCtx ext ctx stakerPublicKeyFlag = Inl e \<longrightarrow>
        createPhase1StakingTransaction ext ctx = (Inl e, []))
     \<and> (parseSchnorPubKeyFromCliCtx ext ctx stakerPublicKeyFlag = Inr k1 \<longrightarrow>
       (parseSchnorPubKeyFromCliCtx ext ctx finalityProviderKeyFlag = Inl e \<longrightarrow>
          createPhase1StakingTransaction ext ctx = (Inl e, []))
       \<and> (parseSchnorPubKeyFromCliCtx ext ctx finalityProviderKeyFlag = Inr k2 \<longrightarrow>
         (parseStakingAmountFromCliCtx ctx = Inl e \<longrightarrow>
            createPhase1StakingTransaction ext ctx = (Inl e, []))
         \<and> (parseStakingAmountFromCliCtx ctx = Inr a \<longrightarrow>
           (parseStakingTimeBlocksFromCliCtx ctx = Inl e \<longrightarrow>
              createPhase1StakingTransaction ext ctx = (Inl e, []))
           \<and> (parseStakingTimeBlocksFromCliCtx ctx = Inr t \<longrightarrow>
             (parseMagicBytesFromCliCtx ctx = Inl e \<longrightarrow>
                createPhase1StakingTransaction ext ctx = (Inl e, []))
             \<and> (parseMagicBytesFromCliCtx ctx = Inr m \<longrightarrow>
               (parseCovenantKeysFromCliCtx ext ctx = Inl e \<longrightarrow>
                  createPhase1StakingTransaction ext ctx = (Inl e, []))))))))
   \<and> (GetBtcNetworkParams (String ctx networkNameFlag) = Inr p \<longrightarrow>
     (NewBTCTxFromHex ext (String ctx stakingTransactionFlag) = Inl e \<longrightarrow>
        checkPhase1StakingTransaction ext ctx = (Inl e, []))
     \<and> (NewBTCTxFromHex ext (String ctx stakingTransactionFlag) = Inr tx \<longrightarrow>
       (parseMagicBytesFromCliCtx ctx = Inl e \<longrightarrow>
          checkPhase1StakingTransaction ext ctx = (Inl e, []))
       \<and> (parseMagicBytesFromCliCtx ctx = Inr m \<longrightarrow>
         (parseCovenantKeysFromCliCtx ext ctx = Inl e \<longrightarrow>
            checkPhase1StakingTransaction ext ctx = (Inl e, [])))))"
  using create_order [of ctx e ext p k1 k2 a t m] check_order [of ctx e ext p tx m]
  by blast

theorem commands_report_first_failing_check_witness:
  "createPhase1StakingTransaction example_ext
       (example_ctx ''foonet'' ''zz'' ''01020304'' [key_a] 10000 100 1)
     = (Inl (Errorf ''unknown network foonet''), [])
   \<and> createPhase1StakingTransaction example_ext
       (example_ctx ''regtest'' ''zz'' ''01020304'' [key_a] 0 100 1)
     = (Inl (InvalidByteError CHR ''z''), [])
   \<and> createPhase1StakingTransaction example_ext
       (example_ctx ''regtest'' key_a ''zz'' [key_a] 10000 100 1)
     = (Inl (InvalidByteError CHR ''z''), [])
   \<and> checkPhase1StakingTransaction example_ext
       (example_ctx ''regtest'' key_a ''01020304'' [key_a, ''zz'', compressed_key_a] 10000 100 1)
     = (Inl (InvalidByteError CHR ''z''), [])"
  using commands_report_first_failing_check [of "example_ctx ''foonet'' ''zz'' ''01020304'' [key_a] 10000 100 1"
      "Errorf ''unknown network foonet''" example_ext]
    commands_report_first_failing_check [of "example_ctx ''regtest'' ''zz'' ''01020304'' [key_a] 0 100 1"
      "InvalidByteError CHR ''z''" example_ext RegressionNetParams]
    commands_report_first_failing_check [of "example_ctx ''regtest'' key_a ''zz'' [key_a] 10000 100 1"
      "InvalidByteError CHR ''z''" example_ext RegressionNetParams bytes_a bytes_b 10000 100]
    commands_report_first_failing_check [of "example_ctx ''regtest'' key_a ''01020304'' [key_a, ''zz'', compressed_key_a] 10000 100 1"
      "InvalidByteError CHR ''z''" example_ext RegressionNetParams _ _ _ _ "[1, 2, 3, 4]" example_tx_bytes]
  by (simp add: parseSchnorPubKeyFromCliCtx_def parseMagicBytesFromCliCtx_def
      parseStakingAmountFromCliCtx_def parseStakingTimeBlocksFromCliCtx_def MaxUint16_def
      parseCovenantKeysFromCliCtx_def hex_example_tx Let_def)

text \<open>
  The network lookup comes before every parser, and the amount is validated before the
  magic bytes are parsed: with an unknown network and a malformed staker key (or malformed
  magic bytes), the error returned is that of the network; with an amount of zero and
  malformed magic bytes, it is that of the amount.
\<close>

theorem parse_error_not_first_counterexample:
  "parseSchnorPubKeyFromCliCtx example_ext
       (example_ctx ''foonet'' ''zz'' ''01020304'' [key_a] 10000 100 1) stakerPublicKeyFlag
     = Inl (InvalidByteError CHR ''z'')
   \<and> createPhase1StakingTransaction example_ext
       (example_ctx ''foonet'' ''zz'' ''01020304'' [key_a] 10000 100 1)
     = (Inl (Errorf ''unknown network foonet''), [])
   \<and> parseMagicBytesFromCliCtx (example_ctx ''foonet'' key_a ''zz'' [key_a] 10000 100 1)
     = Inl (InvalidByteError CHR ''z'')
   \<and> checkPhase1StakingTransaction example_ext
       (example_ctx ''foonet'' key_a ''zz'' [key_a] 10000 100 1)
     = (Inl (Errorf ''unknown network foonet''), [])
   \<and> createPhase1StakingTransaction example_ext
       (example_ctx ''regtest'' key_a ''zz'' [key_a] 0 100 1)
     = (Inl (Errorf ''staking amount should be greater than 0''), [])"
  by (simp add: createPhase1StakingTransaction_def checkPhase1StakingTransaction_def
      parseSchnorPubKeyFromCliCtx_def parseMagicBytesFromCliCtx_def
      parseStakingAmountFromCliCtx_def Let_def)

section \<open>Pagination parameters of the RPC client\<close>

text \<open>
  C9. \<open>BabylonValidators\<close> and \<open>ListStakingTransactions\<close> call the transport with their
  method name and a parameter object that holds a field for exactly the parameters that
  were supplied: no field when offset and limit are both nil, the fields \<open>offset\<close> and
  \<open>limit\<close> with the supplied values when both are given, and the one field otherwise. A
  nil pointer is never stored, so no parameter is sent as null.
\<close>

theorem pagination_params:
  "BabylonValidators Call None None = Call ''babylon_validators'' Map.empty
   \<and> BabylonValidators Call (Some off) (Some lim) =
       Call ''babylon_validators'' [''limit'' \<mapsto> IntPtr (Some lim), ''offset'' \<mapsto> IntPtr (Some off)]
   \<and> BabylonValidators Call (Some off) None = Call ''babylon_validators'' [''offset'' \<mapsto> IntPtr (Some off)]
   \<and> BabylonValidators Call None (Some lim) = Call ''babylon_validators'' [''limit'' \<mapsto> IntPtr (Some lim)]
   \<and> ListStakingTransactions Call None None = Call ''list_staking_transactions'' Map.empty
   \<and> ListStakingTransactions Call (Some off) (Some lim) =
       Call ''list_staking_transactions'' [''limit'' \<mapsto> IntPtr (Some lim), ''offset'' \<mapsto> IntPtr (Some off)]
   \<and> ListStakingTransactions Call (Some off) None = Call ''list_staking_transactions'' [''offset'' \<mapsto> IntPtr (Some off)]
   \<and> ListStakingTransactions Call None (Some lim) = Call ''list_staking_transactions'' [''limit'' \<mapsto> IntPtr (Some lim)]
   \<and> dom [''limit'' \<mapsto> IntPtr (Some lim), ''offset'' \<mapsto> IntPtr (Some off)] = {''offset'', ''limit''}
   \<and> dom (Map.empty :: string \<rightharpoonup> param) = {}"
  by (auto simp: BabylonValidators_def ListStakingTransactions_def split: sum.splits)

section \<open>The JSON input file\<close>

lemma example_env_sel [simp]:
  "FileExists example_json_env p = (map_of example_files p \<noteq> None)"
  "ReadFile example_json_env p = (case map_of example_files p of
                         None \<Rightarrow> Inl (Errorf (''open '' @ p @ '': no such file or directory''))
                       | Some bz \<Rightarrow> Inr bz)"
  "zero_InputBtcStakingTx example_json_env = zero_input"
  "json_Unmarshal example_json_env = json_Unmarshal_example"
  "fmt_plus_v example_json_env = fmt_plus_v_input"
  "ToCreatePhase1StakingTxResponse example_json_env = InputBtcStakingTx_ToCreatePhase1StakingTxResponse example_ext"
  by (simp_all add: example_json_env_def)

lemma ex_empty:
  "createPhase1StakingTransactionFromJson example_json_env (cli_ctx [] [] [] [] [''/tmp/empty.json''])
   = (Inl (Errorf ''unknown network ''), [])"
  by (simp add: createPhase1StakingTransactionFromJson_def Let_def cli_ctx_def First_def example_files_def
      json_Unmarshal_example_def InputBtcStakingTx_ToCreatePhase1StakingTxResponse_def zero_input_def GetBtcNetworkParams_def)

lemma fmt_zero_input:
  "fmt_plus_v_input zero_input =
     ''{magicBytes: stakerKey: finalityProviderKey: covenantKeys:[] covenantQuorum:0 stakingTimeBlocks:0 stakingAmount:0 network:}''"
  by (simp add: fmt_plus_v_input_def zero_input_def fmt_d_def fmt_nat.simps digit_char_def)

lemma ex_array:
  "createPhase1StakingTransactionFromJson example_json_env (cli_ctx [] [] [] [] [''/tmp/array.json''])
   = (Inl (Errorf (''error parsing file content [] to struct '' @ fmt_plus_v_input zero_input
        @ '': json: cannot unmarshal array into Go value of type transaction.InputBtcStakingTx'')), [])"
  by (simp add: createPhase1StakingTransactionFromJson_def Let_def cli_ctx_def First_def example_files_def
      json_Unmarshal_example_def)

lemma ex_missing:
  "createPhase1StakingTransactionFromJson example_json_env (cli_ctx [] [] [] [] [''/tmp/none.json''])
   = (Inl (Errorf ''json file input /tmp/none.json does not exist''), [])"
  by (simp add: createPhase1StakingTransactionFromJson_def Let_def cli_ctx_def First_def example_files_def)

text \<open>
  C3, as the code has it. With a file path given: the message for a file that does not
  exist and the message for a file that cannot be read name the path. When the content
  does not decode, the message is "error parsing file content", the content, "to struct",
  the structure and the decoder's error: it carries the content of the file, not its
  path. When the content decodes, the command returns what
  \<open>ToCreatePhase1StakingTxResponse\<close> returns for the decoded structure.
\<close>

theorem createFromJson_messages:
  "First (Args ctx) = path \<and> path \<noteq> [] \<longrightarrow>
     (\<not> FileExists env path \<longrightarrow>
        createPhase1StakingTransactionFromJson env ctx =
          (Inl (Errorf (''json file input '' @ path @ '' does not exist'')), []))
   \<and> (FileExists env path \<and> ReadFile env path = Inl err \<longrightarrow>
        createPhase1StakingTransactionFromJson env ctx =
          (Inl (Errorf (''error reading file '' @ path @ '': '' @ Error err)), []))
   \<and> (FileExists env path \<and> ReadFile env path = Inr bz \<longrightarrow>
        (json_Unmarshal env bz (zero_InputBtcStakingTx env) = (input, Some err) \<longrightarrow>
           createPhase1StakingTransactionFromJson env ctx =
             (Inl (Errorf (''error parsing file content '' @ bz @ '' to struct ''
                            @ fmt_plus_v env input @ '': '' @ Error err)), []))
      \<and> (json_Unmarshal env bz (zero_InputBtcStakingTx env) = (input, None) \<longrightarrow>
           createPhase1StakingTransactionFromJson env ctx =
             ToCreatePhase1StakingTxResponse env input))"
  by (auto simp: createPhase1StakingTransactionFromJson_def Let_def split: sum.splits prod.splits)

theorem createFromJson_messages_witness:
  "createPhase1StakingTransactionFromJson example_json_env (cli_ctx [] [] [] [] [''/tmp/none.json''])
     = (Inl (Errorf ''json file input /tmp/none.json does not exist''), [])
   \<and> fails_naming ''/tmp/none.json''
        (fst (createPhase1StakingTransactionFromJson example_json_env
               (cli_ctx [] [] [] [] [''/tmp/none.json''])))
   \<and> createPhase1StakingTransactionFromJson example_json_env (cli_ctx [] [] [] [] [''/tmp/array.json''])
     = (Inl (Errorf (''error parsing file content [] to struct '' @ fmt_plus_v_input zero_input
          @ '': json: cannot unmarshal array into Go value of type transaction.InputBtcStakingTx'')), [])
   \<and> createPhase1StakingTransactionFromJson example_json_env (cli_ctx [] [] [] [] [''/tmp/empty.json''])
     = InputBtcStakingTx_ToCreatePhase1StakingTxResponse example_ext zero_input"
  using createFromJson_messages [of "cli_ctx [] [] [] [] [''/tmp/none.json'']" "''/tmp/none.json''" example_json_env]
    createFromJson_messages [of "cli_ctx [] [] [] [] [''/tmp/array.json'']" "''/tmp/array.json''" example_json_env
      "Errorf ''json: cannot unmarshal array into Go value of type transaction.InputBtcStakingTx''"
      "''[]''" zero_input]
    createFromJson_messages [of "cli_ctx [] [] [] [] [''/tmp/empty.json'']" "''/tmp/empty.json''" example_json_env
      _ "''{}''" zero_input]
  by (simp add: cli_ctx_def First_def example_files_def json_Unmarshal_example_def fails_naming_def)

text \<open>
  A file holding the empty object lacks every field and decodes: the failure is that of
  the conversion, on the empty network name. A file holding an array does not decode. In
  neither case does the message name the path of the file.
\<close>

theorem createFromJson_path_not_named_counterexample:
  "createPhase1StakingTransactionFromJson example_json_env (cli_ctx [] [] [] [] [''/tmp/empty.json''])
     = (Inl (Errorf ''unknown network ''), [])
   \<and> \<not> fails_naming ''/tmp/empty.json''
        (fst (createPhase1StakingTransactionFromJson example_json_env
               (cli_ctx [] [] [] [] [''/tmp/empty.json''])))
   \<and> \<not> fails_naming ''/tmp/array.json''
        (fst (createPhase1StakingTransactionFromJson example_json_env
               (cli_ctx [] [] [] [] [''/tmp/array.json''])))"
  by (simp add: ex_empty ex_array fmt_zero_input fails_naming_def)

end
